theory Spec2Isabelle
  imports Main "HOL-Library.Multiset" "HOL-Library.Word"
begin

section \<open>Python values used by utils.py\<close>

text \<open>
  A Python \<open>str\<close> is a sequence of Unicode code points, so \<open>len\<close> and slicing count code
  points. The model writes it as a list of code-point numbers; ASCII literals of the source are
  written through \<open>ascii\<close>, Korean literals by their code points.
\<close>

type_synonym pystr = "nat list"

definition ascii :: "string \<Rightarrow> pystr" where
  "ascii s = map of_char s"

text \<open>\<open>str(n)\<close> of an integer: its decimal digits, with a minus sign when negative.\<close>

fun str_nat :: "nat \<Rightarrow> pystr" where
  "str_nat n = (if n < 10 then [48 + n] else str_nat (n div 10) @ [48 + n mod 10])"

declare str_nat.simps [simp del]

definition str_int :: "int \<Rightarrow> pystr" where
  "str_int i = (if i < 0 then 45 # str_nat (nat (- i)) else str_nat (nat i))"

text \<open>\<open>sub in s\<close> on strings: \<open>sub\<close> occurs in \<open>s\<close> as a contiguous block.\<close>

definition startswith :: "pystr \<Rightarrow> pystr \<Rightarrow> bool" where
  "startswith s p = (take (length p) s = p)"

definition endswith :: "pystr \<Rightarrow> pystr \<Rightarrow> bool" where
  "endswith s p = (length p \<le> length s \<and> drop (length s - length p) s = p)"

fun str_in :: "pystr \<Rightarrow> pystr \<Rightarrow> bool" where
  "str_in sub [] = (sub = [])"
| "str_in sub (c # cs) = (startswith (c # cs) sub \<or> str_in sub cs)"

text \<open>\<open>sep.join(xs)\<close>.\<close>

fun join :: "pystr \<Rightarrow> pystr list \<Rightarrow> pystr" where
  "join sep [] = []"
| "join sep [x] = x"
| "join sep (x # y # ys) = x @ sep @ join sep (y # ys)"

text \<open>
  \<open>s.split('\n')\<close>: the pieces between line feeds (code point 10); there is always at least
  one piece.
\<close>

fun split_lines :: "pystr \<Rightarrow> pystr list" where
  "split_lines [] = [[]]"
| "split_lines (c # cs) =
     (if c = 10 then [] # split_lines cs
      else (case split_lines cs of
              [] \<Rightarrow> [[c]]
            | l # ls \<Rightarrow> (c # l) # ls))"

text \<open>
  \<open>s.replace(old, "")\<close> for a non-empty \<open>old\<close>: scanning from the left, every occurrence
  of \<open>old\<close> is dropped and the scan goes on after it.
\<close>

function remove_all :: "pystr \<Rightarrow> pystr \<Rightarrow> pystr" where
  "remove_all old [] = []"
| "remove_all old (c # cs) =
     (if old \<noteq> [] \<and> startswith (c # cs) old then remove_all old (drop (length old) (c # cs))
      else c # remove_all old cs)"
  by pat_completeness auto
termination
  by (relation "measure (\<lambda>(old, s). length s)") (auto simp: neq_Nil_conv)

text \<open>
  \<open>s.strip()\<close> removes leading and trailing white space. \<open>isspace\<close> lists the code points
  CPython treats as white space.
\<close>

definition isspace :: "nat \<Rightarrow> bool" where
  "isspace c = (c \<in> set ([9, 10, 11, 12, 13, 28, 29, 30, 31, 32, 133, 160, 5760]
       @ [8192 ..< 8203] @ [8232, 8233, 8239, 8287, 12288]))"

definition strip :: "pystr \<Rightarrow> pystr" where
  "strip s = rev (dropWhile isspace (rev (dropWhile isspace s)))"

text \<open>
  Values decoded from JSON, as Python holds them: \<open>None\<close>, \<open>bool\<close>, numbers, \<open>str\<close>,
  \<open>list\<close> and \<open>dict\<close> (the items of the dict in order). No path of the program reads
  the value of a number, so integers stand for all numbers.
\<close>

datatype json =
    JNull
  | JBool bool
  | JNum int
  | JStr pystr
  | JArr "json list"
  | JObj "(pystr \<times> json) list"

text \<open>
  The exceptions the program meets. \<open>Exception\<close> and \<open>ValueError\<close> carry their message;
  \<open>JSONDecodeError\<close> (a subclass of \<open>ValueError\<close>) carries the decoder's message; the
  others are raised by the interpreter and their message text is left open. All of them are
  subclasses of \<open>Exception\<close>, so \<open>except Exception\<close> catches each.
\<close>

datatype exn =
    Exception pystr
  | ValueError pystr
  | JSONDecodeError pystr
  | TypeError
  | AttributeError
  | KeyError pystr
  | IndexError
  | RecursionError

definition bind_exn :: "exn + 'a \<Rightarrow> ('a \<Rightarrow> exn + 'b) \<Rightarrow> exn + 'b" where
  "bind_exn m f = (case m of Inl e \<Rightarrow> Inl e | Inr x \<Rightarrow> f x)"

text \<open>Truth value of a Python object in a condition (\<open>if not response_json\<close>).\<close>

fun truthy :: "json \<Rightarrow> bool" where
  "truthy JNull = False"
| "truthy (JBool b) = b"
| "truthy (JNum n) = (n \<noteq> 0)"
| "truthy (JStr s) = (s \<noteq> [])"
| "truthy (JArr xs) = (xs \<noteq> [])"
| "truthy (JObj kvs) = (kvs \<noteq> [])"

text \<open>\<open>key in obj\<close> for a string key: membership in a dict's keys, in a list, or as a substring;
  \<open>TypeError\<close> for an object that is not a container.\<close>

fun py_in :: "pystr \<Rightarrow> json \<Rightarrow> exn + bool" where
  "py_in k (JObj kvs) = Inr (k \<in> set (map fst kvs))"
| "py_in k (JArr xs) = Inr (JStr k \<in> set xs)"
| "py_in k (JStr s) = Inr (str_in k s)"
| "py_in k JNull = Inl TypeError"
| "py_in k (JBool b) = Inl TypeError"
| "py_in k (JNum n) = Inl TypeError"

text \<open>\<open>obj[key]\<close> for a string key: the dict's value or \<open>KeyError\<close>; \<open>TypeError\<close> for every
  other object (a list or a string takes no string index).\<close>

fun py_getitem :: "json \<Rightarrow> pystr \<Rightarrow> exn + json" where
  "py_getitem (JObj kvs) k = (case map_of kvs k of None \<Rightarrow> Inl (KeyError k) | Some v \<Rightarrow> Inr v)"
| "py_getitem (JArr xs) k = Inl TypeError"
| "py_getitem (JStr s) k = Inl TypeError"
| "py_getitem JNull k = Inl TypeError"
| "py_getitem (JBool b) k = Inl TypeError"
| "py_getitem (JNum n) k = Inl TypeError"

text \<open>\<open>obj.get(key, default)\<close>: only a dict has the method.\<close>

definition dict_get :: "(pystr \<times> json) list \<Rightarrow> pystr \<Rightarrow> json \<Rightarrow> json" where
  "dict_get kvs k d = (case map_of kvs k of None \<Rightarrow> d | Some v \<Rightarrow> v)"

fun py_get :: "json \<Rightarrow> pystr \<Rightarrow> json \<Rightarrow> exn + json" where
  "py_get (JObj kvs) k d = Inr (dict_get kvs k d)"
| "py_get (JArr xs) k d = Inl AttributeError"
| "py_get (JStr s) k d = Inl AttributeError"
| "py_get JNull k d = Inl AttributeError"
| "py_get (JBool b) k d = Inl AttributeError"
| "py_get (JNum n) k d = Inl AttributeError"

fun is_dict :: "json \<Rightarrow> bool" where
  "is_dict (JObj kvs) = True"
| "is_dict (JArr xs) = False"
| "is_dict (JStr s) = False"
| "is_dict JNull = False"
| "is_dict (JBool b) = False"
| "is_dict (JNum n) = False"

text \<open>
  \<open>json.loads\<close> belongs to the standard library, not to the repository: the functions below
  take it as the parameter \<open>json_loads\<close>, which answers \<open>Inr v\<close> with the decoded value or
  \<open>Inl e\<close> with the exception it raises. That is \<open>JSONDecodeError\<close> for a text that is not
  JSON, but the decoder also raises a plain \<open>ValueError\<close> on an integer literal longer than
  the interpreter's digit limit and \<open>RecursionError\<close> on a text nested too deeply.
\<close>

type_synonym loads = "pystr \<Rightarrow> exn + json"

text \<open>The three field names: U+C694 U+C57D (summary), U+BD84 U+B958 (class), U+ADFC U+AC70
  (reason).\<close>

definition key_summary :: pystr where "key_summary = [50836, 50557]"
definition key_pred :: pystr where "key_pred = [48516, 47448]"
definition key_reason :: pystr where "key_reason = [44540, 44144]"

section \<open>Article fetcher\<close>

text \<open>
  \<open>fetch_article_content\<close> (lines 9-25). Everything the libraries do for a URL (the GET,
  \<open>raise_for_status\<close>, the HTML parse, \<open>find_all\<close> of the \<open>p.editor-p\<close> elements and
  \<open>get_text(strip=True)\<close> of each) is the parameter \<open>page\<close>: \<open>Inr\<close> of the paragraph
  texts, or \<open>Inl\<close> of the text of the exception raised.

  Line 23 is \<open>return content, len(content) if content else ("Content not found", 0)\<close>. The
  conditional expression binds tighter than the comma, so the second component of the
  returned pair is either the length or the pair \<open>("Content not found", 0)\<close>.
\<close>

datatype len_or_pair = Len nat | Pair pystr nat

definition fetch_article_content :: "(pystr \<Rightarrow> pystr + pystr list) \<Rightarrow> pystr \<Rightarrow> pystr \<times> len_or_pair" where
  "fetch_article_content page url =
     (case page url of
        Inr paragraphs \<Rightarrow>
          (let content = join (ascii '' '') paragraphs
           in (content, if content \<noteq> [] then Len (length content)
                        else Pair (ascii ''Content not found'') 0))
      | Inl e \<Rightarrow> (ascii ''Error fetching content: '' @ e, Len 0))"

section \<open>Response parser\<close>

text \<open>
  \<open>process_response_content\<close> (lines 27-40). The argument is whatever the response held
  under \<open>content\<close>; \<open>json.loads\<close> raises \<open>TypeError\<close> for an argument that is not a
  string. Line 38 catches \<open>JSONDecodeError\<close> only and turns it into the \<open>ValueError\<close> of
  line 40; every other exception of \<open>json.loads\<close> and the exception of \<open>.get\<close> leave the
  function as they are.
\<close>

definition process_response_content :: "loads \<Rightarrow> json \<Rightarrow> exn + (json \<times> json \<times> json)" where
  "process_response_content json_loads result_content =
     (case result_content of
        JStr s \<Rightarrow>
          (case json_loads s of
             Inl (JSONDecodeError msg) \<Rightarrow>
               Inl (ValueError (ascii ''Unexpected content format: Not a valid JSON''))
           | Inl e \<Rightarrow> Inl e
           | Inr parsed_content \<Rightarrow>
               bind_exn (py_get parsed_content key_summary (JStr [])) (\<lambda>summary.
               bind_exn (py_get parsed_content key_pred (JStr [])) (\<lambda>pred.
               bind_exn (py_get parsed_content key_reason (JStr [])) (\<lambda>reason.
               Inr (summary, pred, reason)))))
      | JNull \<Rightarrow> Inl TypeError
      | JBool b \<Rightarrow> Inl TypeError
      | JNum n \<Rightarrow> Inl TypeError
      | JArr xs \<Rightarrow> Inl TypeError
      | JObj kvs \<Rightarrow> Inl TypeError)"

text \<open>
  The parsing inside \<open>process_single_row\<close> (lines 399-411): a body that starts with an
  opening brace and ends with a closing brace is decoded as JSON; any other body is split
  into lines, and lines 0, 2 and 4 lose their field prefix and surrounding white space.
  \<open>lines[2]\<close> and \<open>lines[4]\<close> raise \<open>IndexError\<close> on a shorter body. A body that is not
  a string has no \<open>startswith\<close>.
\<close>

definition line_at :: "pystr list \<Rightarrow> nat \<Rightarrow> exn + pystr" where
  "line_at ls i = (if i < length ls then Inr (ls ! i) else Inl IndexError)"

definition single_row_fields :: "loads \<Rightarrow> json \<Rightarrow> exn + (json \<times> json \<times> json)" where
  "single_row_fields json_loads result_content =
     (case result_content of
        JStr s \<Rightarrow>
          (if startswith s [123] \<and> endswith s [125] then
             (case json_loads s of
                Inl e \<Rightarrow> Inl e
              | Inr parsed_content \<Rightarrow>
                  bind_exn (py_get parsed_content key_summary (JStr [])) (\<lambda>summary.
                  bind_exn (py_get parsed_content key_pred (JStr [])) (\<lambda>pred.
                  bind_exn (py_get parsed_content key_reason (JStr [])) (\<lambda>reason.
                  Inr (summary, pred, reason)))))
           else
             (let lines = split_lines s in
              bind_exn (line_at lines 0) (\<lambda>l0.
              bind_exn (line_at lines 2) (\<lambda>l2.
              bind_exn (line_at lines 4) (\<lambda>l4.
              Inr (JStr (strip (remove_all (key_summary @ [58]) l0)),
                   JStr (strip (remove_all (key_pred @ [58]) l2)),
                   JStr (strip (remove_all (key_reason @ [58]) l4))))))))
      | JNull \<Rightarrow> Inl AttributeError
      | JBool b \<Rightarrow> Inl AttributeError
      | JNum n \<Rightarrow> Inl AttributeError
      | JArr xs \<Rightarrow> Inl AttributeError
      | JObj kvs \<Rightarrow> Inl AttributeError)"

text \<open>
  A table of \<open>json.loads\<close> on the bodies used in the examples of this theory:
  \<open>{"<class>": "A"}\<close>, alone or followed by a line feed, decodes to a dict with the one
  key, \<open>{}\<close> to the empty dict, \<open>[1]\<close> to a list,
  \<open>{"result": {"message": {"content": "{}"}}}\<close> to the nested dict. The text of 5000
  digits \<open>1\<close> is a JSON number, on which the decoder raises the plain \<open>ValueError\<close> of the
  digit limit (CPython 3.11 and later). Every other text is answered with a decode error;
  the examples only ask about plain prose beyond the listed bodies.
\<close>

definition body_class_A :: pystr where
  "body_class_A = ascii ''{\"'' @ key_pred @ ascii ''\": \"A\"}''"

definition body_reply_ok :: pystr where
  "body_reply_ok = ascii ''{\"result\": {\"message\": {\"content\": \"{}\"}}}''"

definition digit_limit_message :: pystr where
  "digit_limit_message =
     ascii ''Exceeds the limit (4300 digits) for integer string conversion: ''
       @ ascii ''value has 5000 digits; use sys.set_int_max_str_digits() to increase the limit''"

definition loads_table :: loads where
  "loads_table s =
     (if s = replicate 5000 49 then Inl (ValueError digit_limit_message)
      else if s = body_class_A \<or> s = body_class_A @ [10] then
        Inr (JObj [(key_pred, JStr (ascii ''A''))])
      else if s = ascii ''{}'' then Inr (JObj [])
      else if s = ascii ''[1]'' then Inr (JArr [JNum 1])
      else if s = body_reply_ok then
        Inr (JObj [(ascii ''result'',
               JObj [(ascii ''message'', JObj [(ascii ''content'', JStr (ascii ''{}''))])])])
      else Inl (JSONDecodeError (ascii ''Expecting value: line 1 column 1 (char 0)'')))"

section \<open>Data model\<close>

text \<open>
  A row of the input dataframe, with the columns the program reads: the docid column has
  the dtype int64 of an integer column (a signed 64-bit integer, read by \<open>sint\<close>), the
  \<open>len_context\<close> column holds integers, the other columns strings. A result entry and an
  error entry are the dicts appended at lines 131-142 and 147-152 (and 296-307, 230-236,
  270-276, 333-339 in the retry driver). An error entry stores \<open>str(e)\<close> of the exception
  caught; the model keeps the exception \<open>e\<close> itself, and writes a message stored directly
  (lines 233 and 273) as the \<open>Exception\<close> with that message, whose \<open>str\<close> it is. The
  \<open>time\<close> field is what the clock read when the entry was made. The message of a log
  entry and the console output are left out.
\<close>

type_synonym int64 = "64 word"

record row =
  docid :: int64
  category :: pystr
  title :: pystr
  link :: pystr
  content :: pystr
  len_context :: int
  label :: pystr

record result_entry =
  r_docid :: int64
  r_category :: pystr
  r_title :: pystr
  r_link :: pystr
  r_content :: pystr
  r_len_content :: int
  r_label :: pystr
  r_pred :: json
  r_reason :: json
  r_summary :: json

record error_entry =
  e_docid :: int64
  e_category :: pystr
  e_errors :: exn
  e_error_stage :: "pystr option"
  e_time :: pystr

record log_entry =
  l_docid :: int64
  l_category :: pystr
  l_status :: pystr
  l_error_stage :: pystr
  l_time :: pystr

text \<open>
  A dataframe built by \<open>pd.DataFrame(list_of_dicts)\<close> or by \<open>reset_index(drop=True)\<close> has
  the index 0, 1, 2, ..., so it is the list of its rows; but \<open>pd.DataFrame([])\<close> has no
  columns at all, and \<open>frame['docid']\<close> or \<open>frame['category']\<close> raises \<open>KeyError\<close> on it.
  \<open>NoColumns\<close> is that frame; \<open>Table rows\<close> is a frame that has every column of its
  row type (possibly without rows).
\<close>

datatype 'a frame = NoColumns | Table "'a list"

definition DataFrame :: "'a list \<Rightarrow> 'a frame" where
  "DataFrame xs = (if xs = [] then NoColumns else Table xs)"

fun rows_of :: "'a frame \<Rightarrow> 'a list" where
  "rows_of NoColumns = []"
| "rows_of (Table xs) = xs"

definition frame_len :: "'a frame \<Rightarrow> nat" where
  "frame_len f = length (rows_of f)"

definition frame_empty :: "'a frame \<Rightarrow> bool" where
  "frame_empty f = (rows_of f = [])"

section \<open>Completion client\<close>

text \<open>
  The effects of a run are recorded in order: a POST of a message list to the completion
  endpoint, a \<open>time.sleep\<close> of so many seconds, and a reading of the clock by
  \<open>datetime.now()\<close>. The endpoint is the parameter \<open>server\<close>: its reply to a request may
  depend on everything that happened before (the events so far). The clock is the parameter
  \<open>clock\<close>: the formatted time \<open>datetime.now().strftime(...)\<close> it shows after the events
  so far. The two API keys are fixed for a run and only forwarded in the headers;
  \<open>server\<close> stands for the endpoint as reached with them.
\<close>

type_synonym messages = "(pystr \<times> pystr) list"

datatype event = Post messages | Sleep nat | Now

datatype http_reply = RequestException pystr | Reply int pystr

type_synonym server = "event list \<Rightarrow> messages \<Rightarrow> http_reply"

type_synonym clock = "event list \<Rightarrow> pystr"

text \<open>The prefix of the error of a reply whose status is not 200: \<open>API\<close>, U+D638 U+CD9C
  (call), U+C2E4 U+D328 (failure), a colon and a blank.\<close>

definition api_call_failed :: pystr where
  "api_call_failed = [65, 80, 73, 32, 54840, 52636, 32, 49892, 54056, 58, 32]"

text \<open>\<open>call_clova_api\<close> (lines 461-505) returns the pair \<open>(response_json, error)\<close>, one of
  them \<open>None\<close>. Line 496 catches the \<open>JSONDecodeError\<close> of \<open>response.json()\<close> and line
  504 a \<open>RequestException\<close>; any other exception of the decoder leaves the function.\<close>

definition call_clova_api :: "server \<Rightarrow> loads \<Rightarrow> messages \<Rightarrow> event list \<Rightarrow> (exn + json \<times> pystr option) \<times> event list" where
  "call_clova_api server json_loads messages tr =
     ((case server tr messages of
         RequestException e \<Rightarrow> Inr (JNull, Some (ascii ''Request failed: '' @ e))
       | Reply status_code body \<Rightarrow>
           if status_code \<noteq> 200 then
             Inr (JNull, Some (api_call_failed @ str_int status_code @ ascii '', '' @ body))
           else if body = [] then Inr (JNull, Some (ascii ''Empty response received''))
           else (case json_loads body of
                   Inl (JSONDecodeError e) \<Rightarrow>
                     Inr (JNull, Some (ascii ''JSON decoding error: '' @ e
                                         @ ascii '' - Response text: '' @ take 100 body))
                 | Inl e \<Rightarrow> Inl e
                 | Inr response_json \<Rightarrow>
                     if is_dict response_json then Inr (response_json, None)
                     else Inr (JNull, Some (ascii ''Unexpected response format'')))),
      tr @ [Post messages])"

section \<open>Steps shared by the batch processor and the retry driver\<close>

text \<open>Lines 99-104 and 240-244: the context is cut to its first 6500 characters when the
  \<open>len_context\<close> column of the row exceeds 6500.\<close>

definition truncate_context :: "row \<Rightarrow> pystr" where
  "truncate_context r = (if len_context r > 6500 then take 6500 (content r) else content r)"

text \<open>Lines 106-109 and 246-249.\<close>

definition chat_messages :: "pystr \<Rightarrow> pystr \<Rightarrow> messages" where
  "chat_messages prompt context = [(ascii ''system'', prompt), (ascii ''user'', context)]"

text \<open>\<open>if error:\<close> holds for a non-empty string; \<open>None\<close> and the empty string do not count.\<close>

definition error_text :: "pystr option \<Rightarrow> pystr" where
  "error_text error = (case error of None \<Rightarrow> [] | Some e \<Rightarrow> e)"

text \<open>Lines 118 and 284: \<open>'result' not in response_json or 'message' not in
  response_json['result']\<close>, the second test evaluated only when the first fails.\<close>

definition missing_result_message :: "json \<Rightarrow> exn + bool" where
  "missing_result_message response_json =
     bind_exn (py_in (ascii ''result'') response_json) (\<lambda>has_result.
       if has_result then
         bind_exn (py_getitem response_json (ascii ''result'')) (\<lambda>result.
         bind_exn (py_in (ascii ''message'') result) (\<lambda>has_message.
         Inr (if has_message then False else True)))
       else Inr True)"

definition unexpected_format :: exn where
  "unexpected_format =
     Exception (ascii ''Unexpected response format: 'result' or 'message' key missing'')"

text \<open>Lines 121 and 287: \<open>response_json['result']['message'].get('content', '')\<close>.\<close>

definition response_content :: "json \<Rightarrow> exn + json" where
  "response_content response_json =
     bind_exn (py_getitem response_json (ascii ''result'')) (\<lambda>result.
     bind_exn (py_getitem result (ascii ''message'')) (\<lambda>message.
     py_get message (ascii ''content'') (JStr [])))"

section \<open>Batch processor\<close>

text \<open>Lines 114-142 of \<open>process_dataframe\<close>: from the pair returned by the completion
  client to the result entry of the row, or the exception raised on the way.\<close>

definition batch_entry :: "loads \<Rightarrow> pystr \<Rightarrow> row \<Rightarrow> json \<Rightarrow> pystr option \<Rightarrow> exn + result_entry" where
  "batch_entry json_loads cat r response_json error =
     (if error_text error \<noteq> [] then Inl (Exception (error_text error))
      else
        bind_exn (missing_result_message response_json) (\<lambda>missing.
          if missing then Inl unexpected_format
          else
            bind_exn (response_content response_json) (\<lambda>result_content.
              (case process_response_content json_loads result_content of
                 Inl (ValueError ve) \<Rightarrow>
                   Inl (Exception (ascii ''Failed to process content for docid ''
                          @ str_int (sint (docid r)) @ ascii '' in '' @ cat @ ascii '' - ''
                          @ ve))
               | Inl (JSONDecodeError ve) \<Rightarrow>
                   Inl (Exception (ascii ''Failed to process content for docid ''
                          @ str_int (sint (docid r)) @ ascii '' in '' @ cat @ ascii '' - ''
                          @ ve))
               | Inl e \<Rightarrow> Inl e
               | Inr (summary, pred, reason) \<Rightarrow>
                   Inr \<lparr> r_docid = docid r, r_category = cat, r_title = title r,
                         r_link = link r, r_content = content r,
                         r_len_content = len_context r, r_label = label r,
                         r_pred = pred, r_reason = reason, r_summary = summary \<rparr>))))"

text \<open>The body of the \<open>try\<close> of \<open>process_dataframe\<close> for one row (lines 99-144): the
  result entry, or the exception raised (by the completion client or after it), and the
  events so far.\<close>

definition process_try :: "server \<Rightarrow> loads \<Rightarrow> pystr \<Rightarrow> pystr \<Rightarrow> row \<Rightarrow> event list \<Rightarrow> (exn + result_entry) \<times> event list" where
  "process_try server json_loads cat prompt r tr =
     (let context = truncate_context r;
          messages = chat_messages prompt context
      in (case call_clova_api server json_loads messages tr of
            (Inl e, tr') \<Rightarrow> (Inl e, tr')
          | (Inr (response_json, error), tr') \<Rightarrow>
               (batch_entry json_loads cat r response_json error, tr')))"

text \<open>One iteration of the loop (lines 97-156): the \<open>try\<close>, the handler of
  \<open>except Exception\<close>, which reads the clock for the error entry, and the sleep of 6
  seconds that follows both.\<close>

definition process_iteration :: "server \<Rightarrow> loads \<Rightarrow> clock \<Rightarrow> pystr \<Rightarrow> pystr \<Rightarrow> row \<Rightarrow> result_entry list \<times> error_entry list \<times> event list \<Rightarrow> result_entry list \<times> error_entry list \<times> event list" where
  "process_iteration server json_loads clock cat prompt r st =
     (case st of (results, errors, tr) \<Rightarrow>
        (case process_try server json_loads cat prompt r tr of
           (Inr entry, tr') \<Rightarrow> (results @ [entry], errors, tr' @ [Sleep 6])
         | (Inl e, tr') \<Rightarrow>
             (results,
              errors @ [\<lparr> e_docid = docid r, e_category = cat, e_errors = e,
                          e_error_stage = None, e_time = clock tr' \<rparr>],
              tr' @ [Now, Sleep 6])))"

text \<open>\<open>process_dataframe\<close> (lines 92-161), with the events before the call as last
  argument and the events after it as second result. The filter of line 92 stands outside
  the \<open>try\<close>: on a frame without columns its \<open>KeyError\<close> leaves the function.\<close>

definition process_dataframe :: "server \<Rightarrow> loads \<Rightarrow> clock \<Rightarrow> row frame \<Rightarrow> pystr \<Rightarrow> pystr \<Rightarrow> event list \<Rightarrow> (exn + result_entry frame \<times> error_entry frame) \<times> event list" where
  "process_dataframe server json_loads clock df cat prompt tr =
     (case df of
        NoColumns \<Rightarrow> (Inl (KeyError (ascii ''category'')), tr)
      | Table rows \<Rightarrow>
          (let df_filtered = filter (\<lambda>r. category r = cat) rows
           in (case fold (process_iteration server json_loads clock cat prompt) df_filtered
                       ([], [], tr) of
                 (results, errors, tr') \<Rightarrow>
                   (Inr (DataFrame results, DataFrame errors), tr'))))"

section \<open>Retry driver\<close>

text \<open>Lines 310-312: one more than the largest index of a row whose docid is smaller;
  \<open>index.max()\<close> of no rows is NaN, and then the position is 0.\<close>

definition insert_position :: "result_entry list \<Rightarrow> int64 \<Rightarrow> nat" where
  "insert_position rs d =
     (let smaller = filter (\<lambda>i. sint (r_docid (rs ! i)) < sint d) [0 ..< length rs]
      in if smaller = [] then 0 else Max (set smaller) + 1)"

text \<open>Lines 310-318: the frame with the new row put at that position. On a frame without
  columns \<open>result_df['docid']\<close> raises \<open>KeyError\<close>.\<close>

definition insert_result :: "result_entry frame \<Rightarrow> row \<Rightarrow> result_entry \<Rightarrow> exn + result_entry frame" where
  "insert_result result_df r result_data =
     (case result_df of
        NoColumns \<Rightarrow> Inl (KeyError (ascii ''docid''))
      | Table rs \<Rightarrow>
          (let original_index = insert_position rs (docid r)
           in Inr (Table (take original_index rs @ [result_data] @ drop original_index rs))))"

text \<open>What one pass of the retry loop carries from row to row.\<close>

record retry_pass =
  p_result_df :: "result_entry frame"
  p_new_errors :: "error_entry list"
  p_logs :: "log_entry list"
  p_trace :: "event list"

text \<open>How the \<open>try\<close> of the retry loop ends for one error row: at its last line, at a
  \<open>continue\<close>, or with an exception.\<close>

datatype flow = Completed | Continue | Raised exn

text \<open>The dicts appended to \<open>new_errors\<close> and to \<open>current_attempt_logs\<close>, with the time
  the clock showed.\<close>

definition retry_error :: "error_entry \<Rightarrow> exn \<Rightarrow> pystr \<Rightarrow> error_entry" where
  "retry_error error_row e t =
     \<lparr> e_docid = e_docid error_row, e_category = e_category error_row, e_errors = e,
       e_error_stage = Some (ascii ''Retry''), e_time = t \<rparr>"

definition retry_log :: "int64 \<Rightarrow> pystr \<Rightarrow> pystr \<Rightarrow> pystr \<Rightarrow> log_entry" where
  "retry_log d c status t =
     \<lparr> l_docid = d, l_category = c, l_status = status, l_error_stage = ascii ''Retry'',
       l_time = t \<rparr>"

definition no_matching_row :: "error_entry \<Rightarrow> pystr" where
  "no_matching_row error_row =
     ascii ''No matching row found for docid '' @ str_int (sint (e_docid error_row))
       @ ascii '' and category '' @ e_category error_row"

text \<open>A branch that ends with \<open>continue\<close> (lines 222-237 and 262-277): the log entry
  first, then the error entry, each with its own reading of the clock.\<close>

definition skip_row :: "clock \<Rightarrow> error_entry \<Rightarrow> exn \<Rightarrow> retry_pass \<Rightarrow> retry_pass" where
  "skip_row clock error_row e st =
     st \<lparr> p_logs := p_logs st
            @ [retry_log (e_docid error_row) (e_category error_row) (ascii ''Error'')
                 (clock (p_trace st))],
          p_new_errors := p_new_errors st
            @ [retry_error error_row e (clock (p_trace st @ [Now]))],
          p_trace := p_trace st @ [Now, Now] \<rparr>"

text \<open>Lines 284-318: from the decoded response to the result frame with the row inserted.\<close>

definition recover_row :: "loads \<Rightarrow> row \<Rightarrow> json \<Rightarrow> result_entry frame \<Rightarrow> exn + result_entry frame" where
  "recover_row json_loads r response_json result_df =
     bind_exn (missing_result_message response_json) (\<lambda>missing.
       if missing then Inl unexpected_format
       else
         bind_exn (response_content response_json) (\<lambda>result_content.
           (case result_content of
              JStr s \<Rightarrow>
                bind_exn (process_response_content json_loads result_content) (\<lambda>fields.
                  (case fields of (summary, pred, reason) \<Rightarrow>
                     insert_result result_df r
                       \<lparr> r_docid = docid r, r_category = category r, r_title = title r,
                         r_link = link r, r_content = content r,
                         r_len_content = len_context r, r_label = label r,
                         r_pred = pred, r_reason = reason, r_summary = summary \<rparr>))
            | JNull \<Rightarrow> Inl (Exception (ascii ''Unexpected content format''))
            | JBool b \<Rightarrow> Inl (Exception (ascii ''Unexpected content format''))
            | JNum n \<Rightarrow> Inl (Exception (ascii ''Unexpected content format''))
            | JArr xs \<Rightarrow> Inl (Exception (ascii ''Unexpected content format''))
            | JObj kvs \<Rightarrow> Inl (Exception (ascii ''Unexpected content format'')))))"

text \<open>Lines 253-329: what follows the call of the completion client for the row \<open>r\<close>
  found for the error row, given the pair the client returned.\<close>

definition retry_response :: "loads \<Rightarrow> clock \<Rightarrow> error_entry \<Rightarrow> row \<Rightarrow> json \<Rightarrow> pystr option \<Rightarrow> retry_pass \<Rightarrow> flow \<times> retry_pass" where
  "retry_response json_loads clock error_row r response_json error st =
     (if error_text error \<noteq> [] then
        (if str_in (ascii ''429'') (error_text error) then
           (Raised (Exception (api_call_failed @ ascii ''429, Too Many Requests'')),
            st \<lparr> p_trace := p_trace st @ [Sleep 6] \<rparr>)
         else if str_in (ascii ''40005'') (error_text error)
                 \<or> str_in (ascii ''40006'') (error_text error) then
           (Continue, skip_row clock error_row (Exception (error_text error)) st)
         else (Raised (Exception (error_text error)), st))
      else if truthy response_json then
        (case recover_row json_loads r response_json (p_result_df st) of
           Inl e \<Rightarrow> (Raised e, st)
         | Inr result_df' \<Rightarrow>
             (Completed,
              st \<lparr> p_result_df := result_df',
                   p_logs := p_logs st
                     @ [retry_log (docid r) (category r) (ascii ''Success'')
                          (clock (p_trace st))],
                   p_trace := p_trace st @ [Now] \<rparr>))
      else (Raised (Exception (ascii ''Received empty response from the API'')), st))"

text \<open>The body of the \<open>try\<close> of the retry loop for one error row (lines 216-329). The
  lookup of line 217 stands inside the \<open>try\<close>: on a frame without columns its
  \<open>KeyError\<close> goes to the handler.\<close>

definition retry_try :: "server \<Rightarrow> loads \<Rightarrow> clock \<Rightarrow> row frame \<Rightarrow> (pystr \<rightharpoonup> pystr) \<Rightarrow> error_entry \<Rightarrow> retry_pass \<Rightarrow> flow \<times> retry_pass" where
  "retry_try server json_loads clock df prompts error_row st =
     (case df of
        NoColumns \<Rightarrow> (Raised (KeyError (ascii ''docid'')), st)
      | Table rows \<Rightarrow>
          (case filter (\<lambda>r. docid r = e_docid error_row \<and> category r = e_category error_row)
                  rows of
             [] \<Rightarrow>
               (Continue,
                skip_row clock error_row (Exception (no_matching_row error_row)) st)
           | r # others \<Rightarrow>
               (let context = truncate_context r in
                case prompts (category r) of
                  None \<Rightarrow> (Raised (KeyError (category r)), st)
                | Some prompt \<Rightarrow>
                    (let messages = chat_messages prompt context
                     in (case call_clova_api server json_loads messages (p_trace st) of
                           (Inl e, tr') \<Rightarrow> (Raised e, st \<lparr> p_trace := tr' \<rparr>)
                         | (Inr (response_json, error), tr') \<Rightarrow>
                             retry_response json_loads clock error_row r response_json error
                               (st \<lparr> p_trace := tr' \<rparr>))))))"

text \<open>The handler of \<open>except Exception\<close> (lines 331-348): the error entry first, then the
  log entry, each with its own reading of the clock.\<close>

definition retry_except :: "clock \<Rightarrow> error_entry \<Rightarrow> exn \<Rightarrow> retry_pass \<Rightarrow> retry_pass" where
  "retry_except clock error_row e st =
     st \<lparr> p_new_errors := p_new_errors st
            @ [retry_error error_row e (clock (p_trace st))],
          p_logs := p_logs st
            @ [retry_log (e_docid error_row) (e_category error_row) (ascii ''Error'')
                 (clock (p_trace st @ [Now]))],
          p_trace := p_trace st @ [Now, Now] \<rparr>"

text \<open>One iteration of the inner loop (lines 214-350). The sleep of line 350 closes the
  iteration unless the \<open>try\<close> left it through \<open>continue\<close>.\<close>

definition retry_iteration :: "server \<Rightarrow> loads \<Rightarrow> clock \<Rightarrow> row frame \<Rightarrow> (pystr \<rightharpoonup> pystr) \<Rightarrow> error_entry \<Rightarrow> retry_pass \<Rightarrow> retry_pass" where
  "retry_iteration server json_loads clock df prompts error_row st =
     (case retry_try server json_loads clock df prompts error_row st of
        (Continue, st') \<Rightarrow> st'
      | (Completed, st') \<Rightarrow> st' \<lparr> p_trace := p_trace st' @ [Sleep 6] \<rparr>
      | (Raised e, st') \<Rightarrow>
          (let st'' = retry_except clock error_row e st'
           in st'' \<lparr> p_trace := p_trace st'' @ [Sleep 6] \<rparr>))"

text \<open>The state of the \<open>while\<close> loop (lines 201-356).\<close>

record retry_state =
  retry_count :: int
  errors_df :: "error_entry frame"
  result_df :: "result_entry frame"
  all_logs :: "log_entry list"
  trace :: "event list"

definition retry_attempt :: "server \<Rightarrow> loads \<Rightarrow> clock \<Rightarrow> row frame \<Rightarrow> (pystr \<rightharpoonup> pystr) \<Rightarrow> retry_state \<Rightarrow> retry_state" where
  "retry_attempt server json_loads clock df prompts s =
     (let p = fold (retry_iteration server json_loads clock df prompts) (rows_of (errors_df s))
                \<lparr> p_result_df = result_df s, p_new_errors = [], p_logs = [],
                  p_trace = trace s \<rparr>
      in \<lparr> retry_count = retry_count s + 1,
           errors_df = DataFrame (p_new_errors p),
           result_df = p_result_df p,
           all_logs = all_logs s @ p_logs p,
           trace = p_trace p \<rparr>)"

function retry_loop :: "server \<Rightarrow> loads \<Rightarrow> clock \<Rightarrow> row frame \<Rightarrow> (pystr \<rightharpoonup> pystr) \<Rightarrow> int \<Rightarrow> retry_state \<Rightarrow> retry_state" where
  "retry_loop server json_loads clock df prompts max_retries s =
     (if frame_empty (errors_df s) then s
      else if retry_count s < max_retries then
        retry_loop server json_loads clock df prompts max_retries
          (retry_attempt server json_loads clock df prompts s)
      else s)"
  by pat_completeness auto
termination
  by (relation "measure (\<lambda>(server, json_loads, clock, df, prompts, max_retries, s).
                  nat (max_retries - retry_count s))")
     (auto simp: retry_attempt_def Let_def)

declare retry_loop.simps [simp del]

text \<open>\<open>retry_failed_rows\<close> (lines 163-361): the result frame, the remaining errors, the
  log frame, and the events.\<close>

definition retry_failed_rows :: "server \<Rightarrow> loads \<Rightarrow> clock \<Rightarrow> error_entry frame \<Rightarrow> row frame \<Rightarrow> result_entry frame \<Rightarrow> (pystr \<rightharpoonup> pystr) \<Rightarrow> int \<Rightarrow> event list \<Rightarrow> result_entry frame \<times> error_entry frame \<times> log_entry frame \<times> event list" where
  "retry_failed_rows server json_loads clock errors_df0 df result_df0 prompts max_retries tr =
     (let s = retry_loop server json_loads clock df prompts max_retries
                \<lparr> retry_count = 0, errors_df = errors_df0, result_df = result_df0,
                  all_logs = [], trace = tr \<rparr>
      in (result_df s, errors_df s, DataFrame (all_logs s), trace s))"

section \<open>Example inputs\<close>

text \<open>A row with a short content, a result entry and an error entry for it, one prompt per
  category, a clock that always shows the same time, and two endpoints: one that refuses
  every request with status 400 and a body naming the code 40005, one that answers every
  request with status 200 and a completion whose content is the JSON text \<open>{}\<close>.\<close>

definition row_of :: "int64 \<Rightarrow> row" where
  "row_of d = \<lparr> docid = d, category = ascii ''tone'', title = ascii ''t'', link = ascii ''u'',
               content = ascii ''abc'', len_context = 3, label = ascii ''A'' \<rparr>"

definition entry_of :: "int64 \<Rightarrow> result_entry" where
  "entry_of d = \<lparr> r_docid = d, r_category = ascii ''tone'', r_title = ascii ''t'',
                 r_link = ascii ''u'', r_content = ascii ''abc'', r_len_content = 3,
                 r_label = ascii ''A'', r_pred = JStr [], r_reason = JStr [],
                 r_summary = JStr [] \<rparr>"

definition noon :: pystr where
  "noon = ascii ''20240101 12:00:00''"

definition clock_noon :: clock where
  "clock_noon tr = noon"

definition error_of :: "int64 \<Rightarrow> error_entry" where
  "error_of d = \<lparr> e_docid = d, e_category = ascii ''tone'',
                 e_errors = Exception (ascii ''Empty response received''),
                 e_error_stage = None, e_time = noon \<rparr>"

definition prompts_tone :: "pystr \<rightharpoonup> pystr" where
  "prompts_tone = [ascii ''tone'' \<mapsto> ascii ''classify'']"

definition server_policy :: server where
  "server_policy tr m = Reply 400 (ascii ''40005'')"

definition server_ok :: server where
  "server_ok tr m = Reply 200 body_reply_ok"

text \<open>A row whose content has 6501 characters while its \<open>len_context\<close> column says 0.\<close>

definition row_long :: row where
  "row_long = \<lparr> docid = 2, category = ascii ''tone'', title = ascii ''t'', link = ascii ''u'',
                content = replicate 6501 97, len_context = 0, label = ascii ''A'' \<rparr>"

text \<open>A plain-text completion of five lines: the three fields with their prefixes, separated
  by empty lines.\<close>

definition body_plain :: pystr where
  "body_plain = key_summary @ ascii '': s'' @ [10, 10] @ key_pred @ ascii '': A'' @ [10, 10]
                  @ key_reason @ ascii '': r''"

text \<open>An endpoint that answers a request whose user message is \<open>abc\<close> and refuses every
  other one; a row with another content.\<close>

definition server_mixed :: server where
  "server_mixed tr m =
     (if (ascii ''user'', ascii ''abc'') \<in> set m then Reply 200 body_reply_ok
      else Reply 400 (ascii ''40005''))"

definition row_xyz :: row where
  "row_xyz = \<lparr> docid = 2, category = ascii ''tone'', title = ascii ''t'', link = ascii ''u'',
               content = ascii ''xyz'', len_context = 3, label = ascii ''A'' \<rparr>"

text \<open>An endpoint whose reply depends on what happened before: the first request of a run
  times out, every later one is answered.\<close>

definition server_cold :: server where
  "server_cold tr m =
     (if tr = [] then RequestException (ascii ''timed out'') else Reply 200 body_reply_ok)"

text \<open>The error text of the completion client for the refusal, and the message list sent
  for a row of content \<open>abc\<close>.\<close>

definition policy_error :: pystr where
  "policy_error = api_call_failed @ ascii ''400, 40005''"

definition messages_abc :: messages where
  "messages_abc = chat_messages (ascii ''classify'') (ascii ''abc'')"

text \<open>A row whose content has 6501 characters and whose \<open>len_context\<close> column says so.\<close>

definition row_big :: row where
  "row_big = \<lparr> docid = 3, category = ascii ''tone'', title = ascii ''t'', link = ascii ''u'',
               content = replicate 6501 97, len_context = 6501, label = ascii ''A'' \<rparr>"

section \<open>Reading the events and the entries\<close>

text \<open>The contents of the user messages posted to the endpoint, in order.\<close>

definition user_contents :: "event list \<Rightarrow> pystr list" where
  "user_contents tr =
     concat (map (\<lambda>ev. case ev of
                          Post m \<Rightarrow> map snd (filter (\<lambda>rc. fst rc = ascii ''user'') m)
                        | Sleep n \<Rightarrow> []
                        | Now \<Rightarrow> []) tr)"

text \<open>An error entry with its time field blanked, to compare entries of two runs.\<close>

definition without_time :: "error_entry \<Rightarrow> error_entry" where
  "without_time e = e \<lparr> e_time := [] \<rparr>"

text \<open>The rows of the two frames \<open>process_dataframe\<close> returned (none when it raised).\<close>

definition returned_results :: "(exn + result_entry frame \<times> error_entry frame) \<times> event list \<Rightarrow> result_entry list" where
  "returned_results out = (case fst out of Inl e \<Rightarrow> [] | Inr (R, E) \<Rightarrow> rows_of R)"

definition returned_errors :: "(exn + result_entry frame \<times> error_entry frame) \<times> event list \<Rightarrow> error_entry list" where
  "returned_errors out = (case fst out of Inl e \<Rightarrow> [] | Inr (R, E) \<Rightarrow> rows_of E)"

section \<open>Properties\<close>

subsection \<open>Article fetcher\<close>

lemma fetch_article_content_nonempty:
  assumes "page url = Inr paragraphs" and "join (ascii '' '') paragraphs \<noteq> []"
  shows "fetch_article_content page url =
           (join (ascii '' '') paragraphs, Len (length (join (ascii '' '') paragraphs)))"
  using assms by (simp add: fetch_article_content_def Let_def)

text \<open>
  C2. The claim: a page with no paragraph text yields \<open>("Content not found", 0)\<close>. For a
  page without any \<open>p.editor-p\<close> element the source returns the empty content paired with
  the pair \<open>("Content not found", 0)\<close>, which is not the value the claim names.
\<close>

theorem fetch_article_content_no_paragraphs:
  "fetch_article_content (\<lambda>u. Inr []) url = ([], Pair (ascii ''Content not found'') 0)
   \<and> fetch_article_content (\<lambda>u. Inr []) url \<noteq> (ascii ''Content not found'', Len 0)"
  by (simp add: fetch_article_content_def ascii_def)

subsection \<open>Response parser\<close>

lemma dict_get_absent: "k \<notin> set (map fst kvs) \<Longrightarrow> dict_get kvs k d = d"
  by (simp add: dict_get_def map_of_eq_None_iff [THEN iffD2])

lemma py_get_not_dict: "\<not> is_dict v \<Longrightarrow> py_get v k d = Inl AttributeError"
  by (cases v) simp_all

lemma not_all_digits: "c \<noteq> 49 \<Longrightarrow> c # cs \<noteq> replicate n 49"
  by (simp add: Cons_replicate_eq)

lemma loads_table_digits: "loads_table (replicate 5000 49) = Inl (ValueError digit_limit_message)"
  by (simp only: loads_table_def refl if_True)

lemma loads_table_prose:
  "loads_table (ascii ''no json here'')
     = Inl (JSONDecodeError (ascii ''Expecting value: line 1 column 1 (char 0)''))"
  by (simp add: loads_table_def ascii_def body_class_A_def body_reply_ok_def key_pred_def
        not_all_digits)

lemma loads_table_list: "loads_table (ascii ''[1]'') = Inr (JArr [JNum 1])"
  by (simp add: loads_table_def ascii_def body_class_A_def body_reply_ok_def key_pred_def
        not_all_digits)

lemma loads_table_class_A: "loads_table body_class_A = Inr (JObj [(key_pred, JStr (ascii ''A''))])"
  by (simp add: loads_table_def) (simp add: body_class_A_def ascii_def not_all_digits)

text \<open>
  C10, as stated: \<open>ValueError\<close> exactly when the input string is not parseable as JSON, and
  \<open>AttributeError\<close> for valid JSON that is not an object. The text of 5000 digits is a JSON
  number; the decoder raises the plain \<open>ValueError\<close> of the digit limit on it, which line 38
  does not catch, so the function raises \<open>ValueError\<close> on valid JSON and not
  \<open>AttributeError\<close>.
\<close>

theorem digit_limit_value_error:
  "process_response_content loads_table (JStr (replicate 5000 49))
     = Inl (ValueError digit_limit_message)
   \<and> process_response_content loads_table (JStr (replicate 5000 49)) \<noteq> Inl AttributeError"
  by (simp add: process_response_content_def loads_table_digits)

text \<open>
  C10, amended. \<open>process_response_content\<close> raises \<open>ValueError\<close> exactly when
  \<open>json.loads\<close> raises one on its input string: the \<open>ValueError\<close> of line 40 when that is a
  \<open>JSONDecodeError\<close> (the string is not parseable as JSON), the decoder's own
  \<open>ValueError\<close> otherwise. Every exception of \<open>json.loads\<close> other than
  \<open>JSONDecodeError\<close> leaves the function unchanged. When the string decodes to a value that
  is not a dict the function raises \<open>AttributeError\<close>; when it decodes to a dict it returns
  the three fields, and a field whose key is absent comes back as the empty string.
\<close>

theorem process_response_content_outcomes:
  "(json_loads s = Inl (JSONDecodeError m) \<longrightarrow>
      process_response_content json_loads (JStr s)
        = Inl (ValueError (ascii ''Unexpected content format: Not a valid JSON'')))
   \<and> (json_loads s = Inl e \<and> (\<forall>m'. e \<noteq> JSONDecodeError m') \<longrightarrow>
        process_response_content json_loads (JStr s) = Inl e)
   \<and> ((\<exists>t. process_response_content json_loads (JStr s) = Inl (ValueError t))
        \<longleftrightarrow> ((\<exists>t. json_loads s = Inl (JSONDecodeError t))
             \<or> (\<exists>t. json_loads s = Inl (ValueError t))))
   \<and> (json_loads s = Inr v \<and> \<not> is_dict v \<longrightarrow>
        process_response_content json_loads (JStr s) = Inl AttributeError)
   \<and> (json_loads s = Inr (JObj kvs) \<longrightarrow>
        process_response_content json_loads (JStr s) =
          Inr (dict_get kvs key_summary (JStr []), dict_get kvs key_pred (JStr []),
               dict_get kvs key_reason (JStr [])))
   \<and> (k \<notin> set (map fst kvs') \<longrightarrow> dict_get kvs' k (JStr []) = JStr [])"
proof (intro conjI impI)
  assume "json_loads s = Inl (JSONDecodeError m)"
  then show "process_response_content json_loads (JStr s)
        = Inl (ValueError (ascii ''Unexpected content format: Not a valid JSON''))"
    by (simp add: process_response_content_def)
next
  assume "json_loads s = Inl e \<and> (\<forall>m'. e \<noteq> JSONDecodeError m')"
  then show "process_response_content json_loads (JStr s) = Inl e"
    by (cases e) (simp_all add: process_response_content_def)
next
  show "(\<exists>t. process_response_content json_loads (JStr s) = Inl (ValueError t))
        \<longleftrightarrow> ((\<exists>t. json_loads s = Inl (JSONDecodeError t))
             \<or> (\<exists>t. json_loads s = Inl (ValueError t)))"
  proof (cases "json_loads s")
    case (Inl e)
    then show ?thesis by (cases e) (simp_all add: process_response_content_def)
  next
    case (Inr v)
    then show ?thesis
      by (cases v) (simp_all add: process_response_content_def bind_exn_def)
  qed
next
  assume "json_loads s = Inr v \<and> \<not> is_dict v"
  then show "process_response_content json_loads (JStr s) = Inl AttributeError"
    by (simp add: process_response_content_def bind_exn_def py_get_not_dict)
next
  assume "json_loads s = Inr (JObj kvs)"
  then show "process_response_content json_loads (JStr s) =
      Inr (dict_get kvs key_summary (JStr []), dict_get kvs key_pred (JStr []),
           dict_get kvs key_reason (JStr []))"
    by (simp add: process_response_content_def bind_exn_def)
next
  assume "k \<notin> set (map fst kvs')"
  then show "dict_get kvs' k (JStr []) = JStr []" by (rule dict_get_absent)
qed

theorem process_response_content_outcomes_witness:
  "process_response_content loads_table (JStr (ascii ''no json here''))
     = Inl (ValueError (ascii ''Unexpected content format: Not a valid JSON''))
   \<and> process_response_content loads_table (JStr (replicate 5000 49))
       = Inl (ValueError digit_limit_message)
   \<and> process_response_content loads_table (JStr (ascii ''[1]'')) = Inl AttributeError
   \<and> process_response_content loads_table (JStr body_class_A) =
       Inr (JStr [], JStr (ascii ''A''), JStr [])"
proof -
  have a: "process_response_content loads_table (JStr (ascii ''no json here''))
     = Inl (ValueError (ascii ''Unexpected content format: Not a valid JSON''))"
    using process_response_content_outcomes [of loads_table "ascii ''no json here''"
        "ascii ''Expecting value: line 1 column 1 (char 0)''"]
      loads_table_prose by simp
  have b: "process_response_content loads_table (JStr (replicate 5000 49))
       = Inl (ValueError digit_limit_message)"
    using process_response_content_outcomes [of loads_table "replicate 5000 49" _
        "ValueError digit_limit_message"]
      loads_table_digits by simp
  have c: "process_response_content loads_table (JStr (ascii ''[1]'')) = Inl AttributeError"
    using process_response_content_outcomes [where json_loads = loads_table
        and s = "ascii ''[1]''" and v = "JArr [JNum 1]"]
      loads_table_list by simp
  have d: "process_response_content loads_table (JStr body_class_A) =
       Inr (JStr [], JStr (ascii ''A''), JStr [])"
    using process_response_content_outcomes [where json_loads = loads_table
        and s = body_class_A and kvs = "[(key_pred, JStr (ascii ''A''))]"]
      loads_table_class_A
    by (simp add: dict_get_def key_summary_def key_pred_def key_reason_def)
  from a b c d show ?thesis by blast
qed

subsection \<open>The two response shapes\<close>


lemma split_lines_plain:
  "split_lines body_plain = [key_summary @ ascii '': s'', [], key_pred @ ascii '': A'', [],
                             key_reason @ ascii '': r'']"
  by (simp add: body_plain_def key_summary_def key_pred_def key_reason_def ascii_def)

lemma plain_fields:
  "strip (remove_all (key_summary @ [58]) (key_summary @ ascii '': s'')) = ascii ''s''"
  "strip (remove_all (key_pred @ [58]) (key_pred @ ascii '': A'')) = ascii ''A''"
  "strip (remove_all (key_reason @ [58]) (key_reason @ ascii '': r'')) = ascii ''r''"
  by (simp_all add: key_summary_def key_pred_def key_reason_def ascii_def startswith_def
        strip_def isspace_def)

lemma plain_no_braces: "\<not> startswith body_plain [123]"
  by (simp add: body_plain_def key_summary_def startswith_def)

lemma single_row_fields_plain:
  "single_row_fields loads_table (JStr body_plain)
     = Inr (JStr (ascii ''s''), JStr (ascii ''A''), JStr (ascii ''r''))"
  by (simp add: single_row_fields_def Let_def split_lines_plain line_at_def bind_exn_def
        plain_fields plain_no_braces)




text \<open>A plain-text body written as the source expects it (prefix, colon, blank and text on
  lines 0, 2 and 4, empty lines between) gives back the three texts, when they hold no line
  feed and no field prefix and have no white space around them.\<close>

lemma split_lines_one: "10 \<notin> set a \<Longrightarrow> split_lines a = [a]"
  by (induction a) auto

lemma split_lines_break: "10 \<notin> set a \<Longrightarrow> split_lines (a @ 10 # b) = a # split_lines b"
  by (induction a) auto

lemma remove_all_prefix: "old \<noteq> [] \<Longrightarrow> remove_all old (old @ rest) = remove_all old rest"
  by (cases old) (simp_all add: startswith_def)

lemma remove_all_absent: "\<not> str_in old s \<Longrightarrow> remove_all old s = s"
  by (induction old s rule: remove_all.induct) auto

lemma strip_blank: "strip (32 # s) = strip s"
  by (simp add: strip_def isspace_def)

text \<open>A field written as prefix, blank and text comes back as the text.\<close>

lemma field_of_line:
  assumes "k \<noteq> []" and "hd k \<noteq> 32" and "\<not> str_in (k @ [58]) v" and "strip v = v"
  shows "strip (remove_all (k @ [58]) (k @ [58, 32] @ v)) = v"
proof -
  have "remove_all (k @ [58]) (k @ [58, 32] @ v) = remove_all (k @ [58]) ((k @ [58]) @ 32 # v)"
    by simp
  also have "\<dots> = remove_all (k @ [58]) (32 # v)"
    by (rule remove_all_prefix) simp
  also have "\<dots> = 32 # v"
  proof (rule remove_all_absent)
    from assms(1,2) have "\<not> startswith (32 # v) (k @ [58])"
      by (cases k) (auto simp: startswith_def)
    with assms(3) show "\<not> str_in (k @ [58]) (32 # v)" by simp
  qed
  finally show ?thesis using assms(4) by (simp add: strip_blank)
qed

lemma single_row_fields_lines:
  assumes "\<not> startswith s [123]" and "split_lines s = [l0, l1, l2, l3, l4]"
  shows "single_row_fields json_loads (JStr s)
           = Inr (JStr (strip (remove_all (key_summary @ [58]) l0)),
                  JStr (strip (remove_all (key_pred @ [58]) l2)),
                  JStr (strip (remove_all (key_reason @ [58]) l4)))"
  using assms by (simp add: single_row_fields_def Let_def line_at_def bind_exn_def)

lemma single_row_fields_plain_text:
  assumes "10 \<notin> set sm" "10 \<notin> set pr" "10 \<notin> set rs"
    and "\<not> str_in (key_summary @ [58]) sm" "\<not> str_in (key_pred @ [58]) pr"
        "\<not> str_in (key_reason @ [58]) rs"
    and "strip sm = sm" "strip pr = pr" "strip rs = rs"
  shows "single_row_fields json_loads
           (JStr (key_summary @ [58, 32] @ sm @ [10, 10]
                    @ key_pred @ [58, 32] @ pr @ [10, 10]
                    @ key_reason @ [58, 32] @ rs))
         = Inr (JStr sm, JStr pr, JStr rs)"
proof -
  let ?l0 = "key_summary @ [58, 32] @ sm"
  let ?l2 = "key_pred @ [58, 32] @ pr"
  let ?l4 = "key_reason @ [58, 32] @ rs"
  let ?body = "key_summary @ [58, 32] @ sm @ [10, 10] @ key_pred @ [58, 32] @ pr @ [10, 10]
                 @ key_reason @ [58, 32] @ rs"
  have n0: "10 \<notin> set ?l0" and n2: "10 \<notin> set ?l2" and n4: "10 \<notin> set ?l4"
    using assms(1-3) by (simp_all add: key_summary_def key_pred_def key_reason_def)
  have "?body = ?l0 @ 10 # ([] @ 10 # (?l2 @ 10 # ([] @ 10 # ?l4)))" by simp
  then have "split_lines ?body = split_lines (?l0 @ 10 # ([] @ 10 # (?l2 @ 10 # ([] @ 10 # ?l4))))"
    by (rule arg_cong)
  also have "\<dots> = [?l0, [], ?l2, [], ?l4]"
    using n0 n2 n4
    by (simp only: split_lines_break split_lines_one set_simps empty_iff not_False_eq_True)
  finally have lines: "split_lines ?body = [?l0, [], ?l2, [], ?l4]" .
  have nb: "\<not> startswith ?body [123]"
    by (simp add: startswith_def key_summary_def)
  have f0: "strip (remove_all (key_summary @ [58]) ?l0) = sm"
    using assms(4,7) by (intro field_of_line) (simp_all add: key_summary_def)
  have f2: "strip (remove_all (key_pred @ [58]) ?l2) = pr"
    using assms(5,8) by (intro field_of_line) (simp_all add: key_pred_def)
  have f4: "strip (remove_all (key_reason @ [58]) ?l4) = rs"
    using assms(6,9) by (intro field_of_line) (simp_all add: key_reason_def)
  show ?thesis
    using single_row_fields_lines [OF nb lines, of json_loads] by (simp only: f0 f2 f4)
qed

subsection \<open>Counting results and errors\<close>

lemma frame_len_DataFrame: "frame_len (DataFrame xs) = length xs"
  by (simp add: frame_len_def DataFrame_def)

lemma frame_empty_DataFrame: "frame_empty (DataFrame xs) = (xs = [])"
  by (simp add: frame_empty_def DataFrame_def)

lemma frame_empty_len: "frame_empty f = (frame_len f = 0)"
  by (simp add: frame_empty_def frame_len_def)

lemma call_clova_api_trace: "snd (call_clova_api server json_loads messages tr) = tr @ [Post messages]"
  by (simp add: call_clova_api_def)

text \<open>Each iteration of the batch loop appends one entry, to the results or to the errors.\<close>

lemma process_iteration_one:
  "process_iteration server json_loads clock cat prompt r (results, errors, tr) = (results', errors', tr')
   \<Longrightarrow> (\<exists>entry. results' = results @ [entry] \<and> errors' = errors)
       \<or> (\<exists>e. results' = results \<and> errors' = errors @ [e])"
  by (auto simp: process_iteration_def split: prod.splits sum.splits)

lemma process_iteration_count:
  "process_iteration server json_loads clock cat prompt r (results, errors, tr) = (results', errors', tr')
   \<Longrightarrow> length results' + length errors' = Suc (length results + length errors)"
  by (drule process_iteration_one) auto

lemma process_fold_count:
  "fold (process_iteration server json_loads clock cat prompt) rs (results, errors, tr) = (results', errors', tr')
   \<Longrightarrow> length results' + length errors' = length results + length errors + length rs"
proof (induction rs arbitrary: results errors tr)
  case Nil
  then show ?case by simp
next
  case (Cons r rs)
  obtain results1 errors1 tr1 where step:
    "process_iteration server json_loads clock cat prompt r (results, errors, tr) = (results1, errors1, tr1)"
    by (metis prod_cases3)
  with Cons.prems have "fold (process_iteration server json_loads clock cat prompt) rs (results1, errors1, tr1)
      = (results', errors', tr')" by simp
  from Cons.IH [OF this] process_iteration_count [OF step] show ?case by simp
qed

lemma process_dataframe_returns:
  "\<exists>result_df1 errors_df1 tr1.
     process_dataframe server json_loads clock (Table rows) cat prompt tr
       = (Inr (result_df1, errors_df1), tr1)"
  by (simp add: process_dataframe_def Let_def split: prod.splits)

lemma process_dataframe_raises:
  "process_dataframe server json_loads clock df cat prompt tr = (Inl e, tr1) \<Longrightarrow> df = NoColumns"
  by (cases df) (simp_all add: process_dataframe_def Let_def split: prod.splits)

lemma process_dataframe_count:
  "process_dataframe server json_loads clock df cat prompt tr = (Inr (result_df1, errors_df1), tr1)
   \<Longrightarrow> frame_len result_df1 + frame_len errors_df1
         = length (filter (\<lambda>r. category r = cat) (rows_of df))"
  by (cases df)
     (auto simp: process_dataframe_def Let_def frame_len_DataFrame split: prod.splits
           dest: process_fold_count)

lemma insert_result_len:
  "insert_result f r entry = Inr f' \<Longrightarrow> frame_len f' = Suc (frame_len f)"
  by (auto simp: insert_result_def Let_def frame_len_def split: frame.splits)

lemma recover_row_len:
  "recover_row json_loads r response_json f = Inr f' \<Longrightarrow> frame_len f' = Suc (frame_len f)"
  by (auto simp: recover_row_def bind_exn_def split: sum.splits if_splits json.splits prod.splits
           dest: insert_result_len)

text \<open>How the body of the retry loop can end, and what it has changed by then.\<close>

lemma retry_try_cases:
  assumes "retry_try server json_loads clock df prompts error_row st = (fl, st')"
  shows "(fl = Continue \<and> p_result_df st' = p_result_df st
            \<and> (\<exists>e. p_new_errors st' = p_new_errors st @ [e]))
       \<or> (fl = Completed \<and> frame_len (p_result_df st') = Suc (frame_len (p_result_df st))
            \<and> p_new_errors st' = p_new_errors st)
       \<or> ((\<exists>e. fl = Raised e) \<and> p_result_df st' = p_result_df st
            \<and> p_new_errors st' = p_new_errors st)"
  using assms
  by (auto simp: retry_try_def retry_response_def skip_row_def Let_def
           split: frame.splits list.splits option.splits prod.splits if_splits sum.splits
           dest: recover_row_len)

lemma retry_iteration_one:
  "(p_result_df (retry_iteration server json_loads clock df prompts error_row st) = p_result_df st
      \<and> (\<exists>e. p_new_errors (retry_iteration server json_loads clock df prompts error_row st)
                = p_new_errors st @ [e]))
   \<or> (frame_len (p_result_df (retry_iteration server json_loads clock df prompts error_row st))
         = Suc (frame_len (p_result_df st))
      \<and> p_new_errors (retry_iteration server json_loads clock df prompts error_row st) = p_new_errors st)"
proof -
  obtain fl st' where t: "retry_try server json_loads clock df prompts error_row st = (fl, st')"
    by (cases "retry_try server json_loads clock df prompts error_row st")
  from retry_try_cases [OF t] show ?thesis
    by (auto simp: retry_iteration_def t retry_except_def Let_def)
qed

lemma retry_iteration_count:
  "frame_len (p_result_df (retry_iteration server json_loads clock df prompts error_row st))
     + length (p_new_errors (retry_iteration server json_loads clock df prompts error_row st))
   = Suc (frame_len (p_result_df st) + length (p_new_errors st))"
  using retry_iteration_one [of server json_loads clock df prompts error_row st] by auto

lemma retry_fold_count:
  "frame_len (p_result_df (fold (retry_iteration server json_loads clock df prompts) es st))
     + length (p_new_errors (fold (retry_iteration server json_loads clock df prompts) es st))
   = frame_len (p_result_df st) + length (p_new_errors st) + length es"
  by (induction es arbitrary: st) (simp_all add: retry_iteration_count)

lemma retry_attempt_count:
  "frame_len (result_df (retry_attempt server json_loads clock df prompts s))
     + frame_len (errors_df (retry_attempt server json_loads clock df prompts s))
   = frame_len (result_df s) + frame_len (errors_df s)"
  using retry_fold_count [of server json_loads clock df prompts "rows_of (errors_df s)"
      "\<lparr> p_result_df = result_df s, p_new_errors = [], p_logs = [], p_trace = trace s \<rparr>"]
  by (simp add: retry_attempt_def Let_def frame_len_DataFrame) (simp add: frame_len_def)

lemma retry_loop_count:
  "frame_len (result_df (retry_loop server json_loads clock df prompts max_retries s))
     + frame_len (errors_df (retry_loop server json_loads clock df prompts max_retries s))
   = frame_len (result_df s) + frame_len (errors_df s)"
proof (induction server json_loads clock df prompts max_retries s rule: retry_loop.induct)
  case (1 server json_loads clock df prompts max_retries s)
  show ?case
  proof (cases "\<not> frame_empty (errors_df s) \<and> retry_count s < max_retries")
    case True
    then have "retry_loop server json_loads clock df prompts max_retries s
        = retry_loop server json_loads clock df prompts max_retries (retry_attempt server json_loads clock df prompts s)"
      by (subst retry_loop.simps) simp
    with True "1.IH" show ?thesis by (simp add: retry_attempt_count)
  next
    case False
    then have "retry_loop server json_loads clock df prompts max_retries s = s"
      by (subst retry_loop.simps) auto
    then show ?thesis by simp
  qed
qed

text \<open>
  C1. After \<open>process_dataframe\<close> and then \<open>retry_failed_rows\<close>, the rows of the
  result frame and the rows of the remaining error frame add up to the number of input rows
  of the category (and they already do between the two calls); \<open>process_dataframe\<close> returns
  its two frames for every dataframe but the one without columns. Every iteration of the
  batch loop appends exactly one entry, to the results or to the errors; every iteration of
  the retry loop either adds one row to the result frame or one entry to the new errors, and
  leaves the other unchanged.
\<close>

theorem result_plus_error_count:
  "(case process_dataframe server json_loads clock df cat prompt tr of
      (Inl e, tr1) \<Rightarrow> df = NoColumns
    | (Inr (result_df1, errors_df1), tr1) \<Rightarrow>
        (case retry_failed_rows server json_loads clock errors_df1 df result_df1 prompts
                max_retries tr1 of
           (result_df2, errors_df2, logs_df, tr2) \<Rightarrow>
             frame_len result_df1 + frame_len errors_df1
               = length (filter (\<lambda>r. category r = cat) (rows_of df))
             \<and> frame_len result_df2 + frame_len errors_df2
                 = length (filter (\<lambda>r. category r = cat) (rows_of df))))
   \<and> (case process_iteration server json_loads clock cat prompt r (results, errors, tr) of
        (results', errors', tr') \<Rightarrow>
          (\<exists>entry. results' = results @ [entry] \<and> errors' = errors)
          \<or> (\<exists>e. results' = results \<and> errors' = errors @ [e]))
   \<and> ((p_result_df (retry_iteration server json_loads clock df prompts error_row st)
          = p_result_df st
        \<and> (\<exists>e. p_new_errors (retry_iteration server json_loads clock df prompts error_row st)
                  = p_new_errors st @ [e]))
      \<or> (frame_len (p_result_df (retry_iteration server json_loads clock df prompts error_row st))
            = Suc (frame_len (p_result_df st))
          \<and> p_new_errors (retry_iteration server json_loads clock df prompts error_row st)
              = p_new_errors st))"
proof (intro conjI)
  show "(case process_dataframe server json_loads clock df cat prompt tr of
      (Inl e, tr1) \<Rightarrow> df = NoColumns
    | (Inr (result_df1, errors_df1), tr1) \<Rightarrow>
        (case retry_failed_rows server json_loads clock errors_df1 df result_df1 prompts
                max_retries tr1 of
           (result_df2, errors_df2, logs_df, tr2) \<Rightarrow>
             frame_len result_df1 + frame_len errors_df1
               = length (filter (\<lambda>r. category r = cat) (rows_of df))
             \<and> frame_len result_df2 + frame_len errors_df2
                 = length (filter (\<lambda>r. category r = cat) (rows_of df))))"
    by (auto simp: retry_failed_rows_def Let_def retry_loop_count split: prod.splits sum.splits
             dest: process_dataframe_count process_dataframe_raises)
  show "(case process_iteration server json_loads clock cat prompt r (results, errors, tr) of
        (results', errors', tr') \<Rightarrow>
          (\<exists>entry. results' = results @ [entry] \<and> errors' = errors)
          \<or> (\<exists>e. results' = results \<and> errors' = errors @ [e]))"
    using process_iteration_one [of server json_loads clock cat prompt r results errors tr]
    by (simp split: prod.splits)
  show "(p_result_df (retry_iteration server json_loads clock df prompts error_row st)
          = p_result_df st
        \<and> (\<exists>e. p_new_errors (retry_iteration server json_loads clock df prompts error_row st)
                  = p_new_errors st @ [e]))
      \<or> (frame_len (p_result_df (retry_iteration server json_loads clock df prompts error_row st))
            = Suc (frame_len (p_result_df st))
          \<and> p_new_errors (retry_iteration server json_loads clock df prompts error_row st)
              = p_new_errors st)"
    by (rule retry_iteration_one)
qed

text \<open>Three rows of the category, the second refused by the endpoint in every attempt.\<close>

lemma row_of_category: "category (row_of d) = ascii ''tone''"
  by (simp add: row_of_def)

theorem result_plus_error_count_witness:
  "\<exists>result_df1 errors_df1 tr1 result_df2 errors_df2 logs_df tr2.
     process_dataframe server_mixed loads_table clock_noon (Table [row_of 1, row_xyz, row_of 3])
       (ascii ''tone'') (ascii ''classify'') [] = (Inr (result_df1, errors_df1), tr1)
     \<and> retry_failed_rows server_mixed loads_table clock_noon errors_df1
         (Table [row_of 1, row_xyz, row_of 3]) result_df1 prompts_tone 3 tr1
         = (result_df2, errors_df2, logs_df, tr2)
     \<and> frame_len result_df1 + frame_len errors_df1 = 3
     \<and> frame_len result_df2 + frame_len errors_df2 = 3"
proof -
  let ?df = "Table [row_of 1, row_xyz, row_of 3]"
  obtain result_df1 errors_df1 tr1 where p:
    "process_dataframe server_mixed loads_table clock_noon ?df (ascii ''tone'')
       (ascii ''classify'') [] = (Inr (result_df1, errors_df1), tr1)"
    using process_dataframe_returns by blast
  obtain result_df2 errors_df2 logs_df tr2 where q:
    "retry_failed_rows server_mixed loads_table clock_noon errors_df1 ?df result_df1
       prompts_tone 3 tr1 = (result_df2, errors_df2, logs_df, tr2)"
    by (metis prod_cases4)
  have n: "length (filter (\<lambda>r. category r = ascii ''tone'') (rows_of ?df)) = 3"
    by (simp add: row_of_category row_xyz_def)
  from result_plus_error_count [where server = server_mixed and json_loads = loads_table
      and clock = clock_noon and df = ?df and cat = "ascii ''tone''"
      and prompt = "ascii ''classify''" and tr = "[]" and prompts = prompts_tone
      and max_retries = 3] p q n
  have "frame_len result_df1 + frame_len errors_df1 = 3
     \<and> frame_len result_df2 + frame_len errors_df2 = 3" by simp
  with p q show ?thesis by blast
qed

subsection \<open>Insertion of a recovered row\<close>

lemma insert_result_Table:
  "insert_result (Table rs) r entry =
     Inr (Table (take (insert_position rs (docid r)) rs @ [entry]
                   @ drop (insert_position rs (docid r)) rs))"
  by (simp add: insert_result_def Let_def)

lemma insert_position_le: "insert_position rs d \<le> length rs"
proof (cases "filter (\<lambda>i. sint (r_docid (rs ! i)) < sint d) [0 ..< length rs] = []")
  case True
  then show ?thesis by (simp add: insert_position_def)
next
  case False
  let ?S = "set (filter (\<lambda>i. sint (r_docid (rs ! i)) < sint d) [0 ..< length rs])"
  from False have "?S \<noteq> {}" by (metis set_empty)
  then have "Max ?S \<in> ?S" by (intro Max_in) (rule finite_set)
  then have "Max ?S < length rs" by simp
  with False show ?thesis by (simp add: insert_position_def Let_def)
qed

lemma before_insert_position:
  assumes "sorted (map (\<lambda>x. sint (r_docid x)) rs)" and "i < insert_position rs d"
  shows "sint (r_docid (rs ! i)) < sint d"
proof -
  let ?S = "set (filter (\<lambda>i. sint (r_docid (rs ! i)) < sint d) [0 ..< length rs])"
  from assms(2) have ne: "filter (\<lambda>i. sint (r_docid (rs ! i)) < sint d) [0 ..< length rs] \<noteq> []"
    by (auto simp: insert_position_def Let_def split: if_splits)
  then have pos: "insert_position rs d = Max ?S + 1" by (simp add: insert_position_def Let_def)
  from ne have "?S \<noteq> {}" by (metis set_empty)
  then have m: "Max ?S \<in> ?S" by (intro Max_in) (rule finite_set)
  then have mlt: "Max ?S < length rs" and md: "sint (r_docid (rs ! Max ?S)) < sint d" by simp_all
  from assms(2) pos have "i \<le> Max ?S" by simp
  with assms(1) mlt have "map (\<lambda>x. sint (r_docid x)) rs ! i \<le> map (\<lambda>x. sint (r_docid x)) rs ! Max ?S"
    by (intro sorted_nth_mono) simp_all
  with mlt \<open>i \<le> Max ?S\<close> have "sint (r_docid (rs ! i)) \<le> sint (r_docid (rs ! Max ?S))" by simp
  with md show ?thesis by simp
qed

lemma after_insert_position:
  assumes "insert_position rs d \<le> i" and "i < length rs"
  shows "sint d \<le> sint (r_docid (rs ! i))"
proof (rule ccontr)
  assume "\<not> sint d \<le> sint (r_docid (rs ! i))"
  let ?S = "set (filter (\<lambda>i. sint (r_docid (rs ! i)) < sint d) [0 ..< length rs])"
  from \<open>\<not> sint d \<le> sint (r_docid (rs ! i))\<close> assms(2) have i: "i \<in> ?S" by simp
  then have ne: "filter (\<lambda>i. sint (r_docid (rs ! i)) < sint d) [0 ..< length rs] \<noteq> []"
    by (metis empty_iff empty_set)
  from i have "i \<le> Max ?S" by (intro Max_ge) auto
  with ne assms(1) show False by (simp add: insert_position_def Let_def)
qed

lemma sorted_insert_at_position:
  assumes "sorted (map (\<lambda>x. sint (r_docid x)) rs)"
  shows "sorted (map (\<lambda>x. sint (r_docid x)) (take (insert_position rs d) rs) @ [sint d]
                  @ map (\<lambda>x. sint (r_docid x)) (drop (insert_position rs d) rs))"
proof -
  let ?k = "insert_position rs d"
  have k: "?k \<le> length rs" by (rule insert_position_le)
  have s1: "sorted (map (\<lambda>x. sint (r_docid x)) (take ?k rs))"
    using assms by (simp add: take_map [symmetric])
  have s2: "sorted (map (\<lambda>x. sint (r_docid x)) (drop ?k rs))"
    using assms by (simp add: drop_map [symmetric])
  have lo: "\<forall>x \<in> set (take ?k rs). sint (r_docid x) \<le> sint d"
  proof
    fix x assume "x \<in> set (take ?k rs)"
    then obtain i where "i < ?k" and "x = rs ! i"
      using k by (auto simp: in_set_conv_nth)
    with before_insert_position [OF assms, of i d] show "sint (r_docid x) \<le> sint d" by simp
  qed
  have hi: "\<forall>x \<in> set (drop ?k rs). sint d \<le> sint (r_docid x)"
  proof
    fix x assume "x \<in> set (drop ?k rs)"
    then obtain j where "j < length rs - ?k" and "x = rs ! (?k + j)"
      using k by (auto simp: in_set_conv_nth)
    with after_insert_position [of rs d "?k + j"] show "sint d \<le> sint (r_docid x)" by simp
  qed
  from lo hi have "\<forall>x \<in> set (take ?k rs). \<forall>y \<in> set (drop ?k rs). sint (r_docid x) \<le> sint (r_docid y)"
    by fastforce
  with s1 s2 lo hi show ?thesis by (auto simp: sorted_append)
qed

text \<open>
  On a frame with columns whose rows are sorted by docid, the insertion of a recovered row
  (at the position after the last row with a smaller docid, or at 0) succeeds and gives a
  frame whose rows are sorted by docid again and are the old rows plus the new one.
\<close>

lemma insert_result_keeps_sorted:
  assumes "sorted (map (\<lambda>x. sint (r_docid x)) rs)" and "r_docid entry = docid r"
  shows "\<exists>rs'. insert_result (Table rs) r entry = Inr (Table rs')
            \<and> sorted (map (\<lambda>x. sint (r_docid x)) rs') \<and> mset rs' = mset rs + {#entry#}"
proof -
  let ?k = "insert_position rs (docid r)"
  let ?rs' = "take ?k rs @ [entry] @ drop ?k rs"
  have "mset (take ?k rs) + mset (drop ?k rs) = mset (take ?k rs @ drop ?k rs)"
    by (simp only: mset_append)
  also have "\<dots> = mset rs" by (simp only: append_take_drop_id)
  finally have td: "mset (take ?k rs) + mset (drop ?k rs) = mset rs" .
  have m: "mset ?rs' = mset rs + {#entry#}" by (simp add: td)
  from sorted_insert_at_position [OF assms(1), of "docid r"] assms(2)
  have "sorted (map (\<lambda>x. sint (r_docid x)) ?rs')" by simp
  with m show ?thesis by (simp add: insert_result_Table)
qed

text \<open>A frame without columns takes no row: the lookup of its docid column at line 310
  fails.\<close>

lemma insert_result_NoColumns: "insert_result NoColumns r entry = Inl (KeyError (ascii ''docid''))"
  by (simp add: insert_result_def)

text \<open>The insertion of docid 2 between docids 1 and 3.\<close>

lemma insert_result_between:
  "(\<exists>rs'. insert_result (Table [entry_of 1, entry_of 3]) (row_of 2) (entry_of 2) = Inr (Table rs')
            \<and> sorted (map (\<lambda>x. sint (r_docid x)) rs')
            \<and> mset rs' = mset [entry_of 1, entry_of 3] + {#entry_of 2#})
   \<and> insert_result (Table [entry_of 1, entry_of 3]) (row_of 2) (entry_of 2)
       = Inr (Table [entry_of 1, entry_of 2, entry_of 3])"
proof -
  have pos: "insert_position [entry_of 1, entry_of 3] 2 = 1"
    by (simp add: insert_position_def entry_of_def upt_rec)
  have "sorted (map (\<lambda>x. sint (r_docid x)) [entry_of 1, entry_of 3])" and "r_docid (entry_of 2) = docid (row_of 2)"
    by (simp_all add: entry_of_def row_of_def)
  from insert_result_keeps_sorted [OF this]
  have a: "\<exists>rs'. insert_result (Table [entry_of 1, entry_of 3]) (row_of 2) (entry_of 2) = Inr (Table rs')
            \<and> sorted (map (\<lambda>x. sint (r_docid x)) rs')
            \<and> mset rs' = mset [entry_of 1, entry_of 3] + {#entry_of 2#}" .
  have b: "insert_result (Table [entry_of 1, entry_of 3]) (row_of 2) (entry_of 2)
       = Inr (Table [entry_of 1, entry_of 2, entry_of 3])"
    using pos by (simp add: insert_result_Table) (simp add: row_of_def)
  from a b show ?thesis by blast
qed

subsection \<open>Passes of the retry loop\<close>


lemma retry_loop_stop:
  "frame_empty (errors_df s) \<or> max_retries \<le> retry_count s
   \<Longrightarrow> retry_loop server json_loads clock df prompts max_retries s = s"
  by (subst retry_loop.simps) auto

lemma retry_loop_step:
  "\<not> frame_empty (errors_df s) \<Longrightarrow> retry_count s < max_retries
   \<Longrightarrow> retry_loop server json_loads clock df prompts max_retries s
       = retry_loop server json_loads clock df prompts max_retries
           (retry_attempt server json_loads clock df prompts s)"
  by (subst retry_loop.simps) simp



subsection \<open>The retry driver against an endpoint that refuses with code 40005\<close>

lemma str_int_400: "str_int 400 = ascii ''400''"
  by (simp add: str_int_def str_nat.simps ascii_def)

lemma policy_call:
  "call_clova_api server_policy json_loads m tr
     = (Inr (JNull, Some policy_error), tr @ [Post m])"
  by (simp add: call_clova_api_def server_policy_def str_int_400 policy_error_def)
     (simp add: ascii_def)

lemma policy_error_class:
  "policy_error \<noteq> []" "\<not> str_in (ascii ''429'') policy_error"
  "str_in (ascii ''40005'') policy_error"
  by (simp_all add: policy_error_def api_call_failed_def ascii_def startswith_def)

lemma policy_iteration:
  assumes "e_docid e = 1" and "e_category e = ascii ''tone''"
  shows "retry_iteration server_policy json_loads clock (Table [row_of 1]) prompts_tone e st =
           st \<lparr> p_trace := p_trace st @ [Post messages_abc, Now, Now],
                p_logs := p_logs st
                  @ [retry_log 1 (ascii ''tone'') (ascii ''Error'')
                       (clock (p_trace st @ [Post messages_abc]))],
                p_new_errors := p_new_errors st
                  @ [retry_error e (Exception policy_error)
                       (clock (p_trace st @ [Post messages_abc, Now]))] \<rparr>"
  using assms
  by (simp add: retry_iteration_def retry_try_def retry_response_def skip_row_def row_of_def
        prompts_tone_def Let_def policy_call error_text_def policy_error_class
        truncate_context_def messages_abc_def)

lemma policy_attempt:
  assumes "errors_df s = Table [e]" and "e_docid e = 1" and "e_category e = ascii ''tone''"
  shows "retry_attempt server_policy json_loads clock (Table [row_of 1]) prompts_tone s =
           \<lparr> retry_count = retry_count s + 1,
             errors_df = Table [retry_error e (Exception policy_error)
                                  (clock (trace s @ [Post messages_abc, Now]))],
             result_df = result_df s,
             all_logs = all_logs s
               @ [retry_log 1 (ascii ''tone'') (ascii ''Error'')
                    (clock (trace s @ [Post messages_abc]))],
             trace = trace s @ [Post messages_abc, Now, Now] \<rparr>"
  using assms by (simp add: retry_attempt_def Let_def policy_iteration DataFrame_def)

lemma retry_error_fields:
  "e_docid (retry_error e x t) = e_docid e" "e_category (retry_error e x t) = e_category e"
  by (simp_all add: retry_error_def)

lemma error_of_fields: "e_docid (error_of d) = d" "e_category (error_of d) = ascii ''tone''"
  by (simp_all add: error_of_def)

lemma retry_error_again: "retry_error (retry_error e x t) y u = retry_error e y u"
  by (simp add: retry_error_def)




lemma policy_loop:
  "retry_loop server_policy json_loads clock_noon (Table [row_of 1]) prompts_tone 3
      \<lparr> retry_count = 0, errors_df = Table [error_of 1], result_df = R, all_logs = [], trace = [] \<rparr>
   = \<lparr> retry_count = 3,
       errors_df = Table [retry_error (error_of 1) (Exception policy_error) noon],
       result_df = R,
       all_logs = [retry_log 1 (ascii ''tone'') (ascii ''Error'') noon,
                   retry_log 1 (ascii ''tone'') (ascii ''Error'') noon,
                   retry_log 1 (ascii ''tone'') (ascii ''Error'') noon],
       trace = [Post messages_abc, Now, Now, Post messages_abc, Now, Now,
                Post messages_abc, Now, Now] \<rparr>"
  by (simp add: retry_loop_step retry_loop_stop frame_empty_def policy_attempt retry_error_fields
        error_of_fields retry_error_again clock_noon_def)

lemma policy_loop_once:
  "retry_loop server_policy json_loads clock_noon (Table [row_of 1]) prompts_tone 1
      \<lparr> retry_count = 0, errors_df = Table [error_of 1], result_df = R, all_logs = [], trace = [] \<rparr>
   = \<lparr> retry_count = 1,
       errors_df = Table [retry_error (error_of 1) (Exception policy_error) noon],
       result_df = R,
       all_logs = [retry_log 1 (ascii ''tone'') (ascii ''Error'') noon],
       trace = [Post messages_abc, Now, Now] \<rparr>"
  by (simp add: retry_loop_step retry_loop_stop frame_empty_def policy_attempt retry_error_fields
        error_of_fields retry_error_again clock_noon_def)

text \<open>
  C4. The claim: a row whose call returns an error containing 40005 is not retried in any
  later attempt. Here the first call for docid 1 returns such an error, and the row is
  called again in the second and in the third attempt: line 270 puts it into
  \<open>new_errors\<close>, which is the error frame of the next pass. (After each call the clock is
  read twice, for the log entry and for the error entry.)
\<close>

theorem policy_row_retried:
  "str_in (ascii ''40005'') policy_error
   \<and> fst (call_clova_api server_policy loads_table messages_abc [])
       = Inr (JNull, Some policy_error)
   \<and> snd (snd (snd (retry_failed_rows server_policy loads_table clock_noon (Table [error_of 1])
                      (Table [row_of 1]) NoColumns prompts_tone 3 [])))
       = [Post messages_abc, Now, Now, Post messages_abc, Now, Now, Post messages_abc, Now, Now]"
  by (simp add: retry_failed_rows_def Let_def policy_loop policy_error_class policy_call)

subsection \<open>Calls that the example endpoints answer\<close>

lemma loads_table_reply_ok:
  "loads_table body_reply_ok =
     Inr (JObj [(ascii ''result'',
            JObj [(ascii ''message'', JObj [(ascii ''content'', JStr (ascii ''{}''))])])])"
  by (simp add: loads_table_def body_reply_ok_def body_class_A_def key_pred_def ascii_def
        not_all_digits)

lemma loads_table_empty_dict: "loads_table (ascii ''{}'') = Inr (JObj [])"
  by (simp add: loads_table_def body_class_A_def body_reply_ok_def key_pred_def ascii_def
        not_all_digits)

lemma body_reply_ok_nonempty: "body_reply_ok \<noteq> []"
  by (simp add: body_reply_ok_def ascii_def)

lemma ok_call:
  "call_clova_api server_ok loads_table m tr =
     (Inr (JObj [(ascii ''result'',
             JObj [(ascii ''message'', JObj [(ascii ''content'', JStr (ascii ''{}''))])])], None),
      tr @ [Post m])"
  by (simp add: call_clova_api_def server_ok_def loads_table_reply_ok body_reply_ok_nonempty)

lemma mixed_call_abc:
  "call_clova_api server_mixed loads_table (chat_messages p (ascii ''abc'')) tr =
     (Inr (JObj [(ascii ''result'',
             JObj [(ascii ''message'', JObj [(ascii ''content'', JStr (ascii ''{}''))])])], None),
      tr @ [Post (chat_messages p (ascii ''abc''))])"
  by (simp add: call_clova_api_def server_mixed_def chat_messages_def loads_table_reply_ok
        body_reply_ok_nonempty)

lemma mixed_call_xyz:
  "call_clova_api server_mixed loads_table (chat_messages p (ascii ''xyz'')) tr =
     (Inr (JNull, Some policy_error), tr @ [Post (chat_messages p (ascii ''xyz''))])"
  by (simp add: call_clova_api_def server_mixed_def chat_messages_def str_int_400 policy_error_def)
     (simp add: ascii_def)

lemma cold_call_first:
  "call_clova_api server_cold loads_table m [] =
     (Inr (JNull, Some (ascii ''Request failed: timed out'')), [Post m])"
  by (simp add: call_clova_api_def server_cold_def) (simp add: ascii_def)

lemma cold_call_later:
  "tr \<noteq> [] \<Longrightarrow> call_clova_api server_cold loads_table m tr =
     (Inr (JObj [(ascii ''result'',
             JObj [(ascii ''message'', JObj [(ascii ''content'', JStr (ascii ''{}''))])])], None),
      tr @ [Post m])"
  by (simp add: call_clova_api_def server_cold_def loads_table_reply_ok body_reply_ok_nonempty)

lemma empty_completion_fields:
  "process_response_content loads_table (JStr (ascii ''{}'')) = Inr (JStr [], JStr [], JStr [])"
  by (simp add: process_response_content_def loads_table_empty_dict bind_exn_def dict_get_def)

lemma reply_ok_content:
  "missing_result_message (JObj [(ascii ''result'',
         JObj [(ascii ''message'', JObj [(ascii ''content'', JStr (ascii ''{}''))])])]) = Inr False"
  "response_content (JObj [(ascii ''result'',
         JObj [(ascii ''message'', JObj [(ascii ''content'', JStr (ascii ''{}''))])])])
     = Inr (JStr (ascii ''{}''))"
  by (simp_all add: missing_result_message_def response_content_def bind_exn_def dict_get_def)

lemma truncate_row_of: "truncate_context (row_of d) = ascii ''abc''"
  by (simp add: truncate_context_def row_of_def)

text \<open>The body of the batch loop for a row of content \<open>abc\<close>, when the call is answered
  and when it is not.\<close>

lemma process_try_answered:
  assumes "call_clova_api server loads_table (chat_messages prompt (ascii ''abc'')) tr =
     (Inr (JObj [(ascii ''result'',
             JObj [(ascii ''message'', JObj [(ascii ''content'', JStr (ascii ''{}''))])])], None),
      tr')"
  shows "process_try server loads_table (ascii ''tone'') prompt (row_of d) tr
           = (Inr (entry_of d), tr')"
  using assms
  by (simp add: process_try_def Let_def truncate_row_of batch_entry_def error_text_def
        reply_ok_content bind_exn_def empty_completion_fields)
     (simp add: row_of_def entry_of_def)

lemma process_try_refused:
  assumes "call_clova_api server json_loads (chat_messages prompt (truncate_context r)) tr =
             (Inr (JNull, Some err), tr')"
    and "err \<noteq> []"
  shows "process_try server json_loads cat prompt r tr = (Inl (Exception err), tr')"
  using assms by (simp add: process_try_def Let_def batch_entry_def error_text_def)

lemma mixed_ok:
  "process_try server_mixed loads_table (ascii ''tone'') (ascii ''classify'') (row_of d) tr
     = (Inr (entry_of d), tr @ [Post messages_abc])"
  by (simp add: process_try_answered [OF mixed_call_abc] messages_abc_def)

lemma mixed_xyz:
  "process_try server_mixed loads_table (ascii ''tone'') (ascii ''classify'') row_xyz tr
     = (Inl (Exception policy_error),
        tr @ [Post (chat_messages (ascii ''classify'') (ascii ''xyz''))])"
proof -
  have t: "truncate_context row_xyz = ascii ''xyz''"
    by (simp add: truncate_context_def row_xyz_def)
  show ?thesis
    by (rule process_try_refused [where err = policy_error])
       (simp_all add: t mixed_call_xyz policy_error_class)
qed

lemma cold_first:
  "process_try server_cold loads_table (ascii ''tone'') (ascii ''classify'') (row_of d) []
     = (Inl (Exception (ascii ''Request failed: timed out'')), [Post messages_abc])"
  by (rule process_try_refused)
     (simp_all add: truncate_row_of cold_call_first messages_abc_def, simp add: ascii_def)

lemma cold_later:
  "tr \<noteq> [] \<Longrightarrow>
   process_try server_cold loads_table (ascii ''tone'') (ascii ''classify'') (row_of d) tr
     = (Inr (entry_of d), tr @ [Post messages_abc])"
  by (simp add: process_try_answered [OF cold_call_later] messages_abc_def)

lemma policy_try:
  "process_try server_policy json_loads (ascii ''tone'') (ascii ''classify'') (row_of d) tr
     = (Inl (Exception policy_error), tr @ [Post messages_abc])"
  by (rule process_try_refused)
     (simp_all add: truncate_row_of policy_call messages_abc_def policy_error_class)

subsection \<open>A recovered row and a result frame without columns\<close>

lemma row_of_docid: "docid (row_of d) = d"
  by (simp add: row_of_def)

lemma ok_iteration_no_columns:
  assumes "e_docid e = 1" and "e_category e = ascii ''tone''" and "p_result_df st = NoColumns"
  shows "retry_iteration server_ok loads_table clock (Table [row_of 1]) prompts_tone e st =
           st \<lparr> p_trace := p_trace st @ [Post messages_abc, Now, Now, Sleep 6],
                p_new_errors := p_new_errors st
                  @ [retry_error e (KeyError (ascii ''docid''))
                       (clock (p_trace st @ [Post messages_abc]))],
                p_logs := p_logs st
                  @ [retry_log 1 (ascii ''tone'') (ascii ''Error'')
                       (clock (p_trace st @ [Post messages_abc, Now]))] \<rparr>"
  using assms
  by (simp add: retry_iteration_def retry_try_def retry_response_def retry_except_def
        prompts_tone_def Let_def ok_call error_text_def truncate_row_of messages_abc_def
        recover_row_def reply_ok_content bind_exn_def empty_completion_fields
        insert_result_NoColumns)
     (simp add: row_of_def)

lemma ok_attempt_no_columns:
  assumes "errors_df s = Table [e]" and "e_docid e = 1" and "e_category e = ascii ''tone''"
    and "result_df s = NoColumns"
  shows "retry_attempt server_ok loads_table clock (Table [row_of 1]) prompts_tone s =
           \<lparr> retry_count = retry_count s + 1,
             errors_df = Table [retry_error e (KeyError (ascii ''docid''))
                                  (clock (trace s @ [Post messages_abc]))],
             result_df = NoColumns,
             all_logs = all_logs s
               @ [retry_log 1 (ascii ''tone'') (ascii ''Error'')
                    (clock (trace s @ [Post messages_abc, Now]))],
             trace = trace s @ [Post messages_abc, Now, Now, Sleep 6] \<rparr>"
  using assms by (simp add: retry_attempt_def Let_def ok_iteration_no_columns DataFrame_def)

lemma ok_loop_no_columns:
  "retry_loop server_ok loads_table clock_noon (Table [row_of 1]) prompts_tone 3
      \<lparr> retry_count = 0, errors_df = Table [error_of 1], result_df = NoColumns, all_logs = [],
        trace = [] \<rparr>
   = \<lparr> retry_count = 3,
       errors_df = Table [retry_error (error_of 1) (KeyError (ascii ''docid'')) noon],
       result_df = NoColumns,
       all_logs = [retry_log 1 (ascii ''tone'') (ascii ''Error'') noon,
                   retry_log 1 (ascii ''tone'') (ascii ''Error'') noon,
                   retry_log 1 (ascii ''tone'') (ascii ''Error'') noon],
       trace = [Post messages_abc, Now, Now, Sleep 6, Post messages_abc, Now, Now, Sleep 6,
                Post messages_abc, Now, Now, Sleep 6] \<rparr>"
  by (simp add: retry_loop_step retry_loop_stop frame_empty_def ok_attempt_no_columns
        retry_error_fields error_of_fields retry_error_again clock_noon_def)

lemma ok_iteration_columns:
  assumes "e_docid e = 1" and "e_category e = ascii ''tone''" and "p_result_df st = Table []"
  shows "retry_iteration server_ok loads_table clock (Table [row_of 1]) prompts_tone e st =
           st \<lparr> p_result_df := Table [entry_of 1],
                p_logs := p_logs st
                  @ [retry_log 1 (ascii ''tone'') (ascii ''Success'')
                       (clock (p_trace st @ [Post messages_abc]))],
                p_trace := p_trace st @ [Post messages_abc, Now, Sleep 6] \<rparr>"
  using assms
  by (simp add: retry_iteration_def retry_try_def retry_response_def
        prompts_tone_def Let_def ok_call error_text_def truncate_row_of messages_abc_def
        recover_row_def reply_ok_content bind_exn_def empty_completion_fields
        insert_result_def insert_position_def)
     (simp add: row_of_def entry_of_def)

lemma ok_loop_columns:
  "retry_loop server_ok loads_table clock_noon (Table [row_of 1]) prompts_tone 3
      \<lparr> retry_count = 0, errors_df = Table [error_of 1], result_df = Table [], all_logs = [],
        trace = [] \<rparr>
   = \<lparr> retry_count = 1,
       errors_df = NoColumns,
       result_df = Table [entry_of 1],
       all_logs = [retry_log 1 (ascii ''tone'') (ascii ''Success'') noon],
       trace = [Post messages_abc, Now, Sleep 6] \<rparr>"
  by (simp add: retry_loop_step retry_loop_stop frame_empty_def retry_attempt_def Let_def
        ok_iteration_columns error_of_fields DataFrame_def clock_noon_def)

text \<open>
  C8. The claim: inserting a recovered row into a result collection sorted by docid gives a
  collection sorted by docid. When the first call of every row of the category fails,
  \<open>process_dataframe\<close> returns \<open>pd.DataFrame([])\<close> as result frame: a frame without
  columns, sorted, having no rows. Given to \<open>retry_failed_rows\<close> with an endpoint that
  now answers, line 310 raises \<open>KeyError('docid')\<close> in each of the three passes: the row
  is answered three times and never inserted, the result frame stays without the row, and
  the row ends in the error frame. With the empty frame that has its columns the same run
  inserts the row in the first pass.
\<close>

theorem recovered_row_not_inserted:
  "process_dataframe server_policy loads_table clock_noon (Table [row_of 1]) (ascii ''tone'')
      (ascii ''classify'') []
     = (Inr (NoColumns,
             Table [\<lparr> e_docid = 1, e_category = ascii ''tone'',
                      e_errors = Exception policy_error, e_error_stage = None,
                      e_time = noon \<rparr>]),
        [Post messages_abc, Now, Sleep 6])
   \<and> insert_result NoColumns (row_of 1) (entry_of 1) = Inl (KeyError (ascii ''docid''))
   \<and> retry_failed_rows server_ok loads_table clock_noon (Table [error_of 1]) (Table [row_of 1])
        NoColumns prompts_tone 3 []
     = (NoColumns,
        Table [retry_error (error_of 1) (KeyError (ascii ''docid'')) noon],
        Table [retry_log 1 (ascii ''tone'') (ascii ''Error'') noon,
               retry_log 1 (ascii ''tone'') (ascii ''Error'') noon,
               retry_log 1 (ascii ''tone'') (ascii ''Error'') noon],
        [Post messages_abc, Now, Now, Sleep 6, Post messages_abc, Now, Now, Sleep 6,
         Post messages_abc, Now, Now, Sleep 6])
   \<and> retry_failed_rows server_ok loads_table clock_noon (Table [error_of 1]) (Table [row_of 1])
        (Table []) prompts_tone 3 []
     = (Table [entry_of 1], NoColumns,
        Table [retry_log 1 (ascii ''tone'') (ascii ''Success'') noon],
        [Post messages_abc, Now, Sleep 6])"
  by (simp add: retry_failed_rows_def Let_def ok_loop_no_columns ok_loop_columns
        insert_result_NoColumns DataFrame_def process_dataframe_def process_iteration_def
        row_of_category row_of_docid policy_try clock_noon_def)

subsection \<open>A failing row and the rows after it\<close>

lemma rows_of_DataFrame: "rows_of (DataFrame xs) = xs"
  by (simp add: DataFrame_def)

lemma process_iteration_parts:
  "process_iteration server json_loads clock cat prompt r (results, errors, tr) =
     (results @ (case fst (process_try server json_loads cat prompt r tr) of
                   Inl e \<Rightarrow> [] | Inr entry \<Rightarrow> [entry]),
      errors @ (case fst (process_try server json_loads cat prompt r tr) of
                  Inl e \<Rightarrow> [\<lparr> e_docid = docid r, e_category = cat, e_errors = e,
                               e_error_stage = None,
                               e_time = clock (snd (process_try server json_loads cat prompt r tr)) \<rparr>]
                | Inr entry \<Rightarrow> []),
      snd (process_try server json_loads cat prompt r tr)
        @ (case fst (process_try server json_loads cat prompt r tr) of
             Inl e \<Rightarrow> [Now, Sleep 6] | Inr entry \<Rightarrow> [Sleep 6]))"
  by (simp add: process_iteration_def split: prod.splits sum.splits)

text \<open>The loop only appends to the two lists it has built so far.\<close>

lemma process_fold_acc:
  "fold (process_iteration server json_loads clock cat prompt) rs (results, errors, tr) =
     (case fold (process_iteration server json_loads clock cat prompt) rs ([], [], tr) of
        (R, E, tr') \<Rightarrow> (results @ R, errors @ E, tr'))"
proof (induction rs arbitrary: results errors tr)
  case Nil
  show ?case by simp
next
  case (Cons r rs)
  let ?a = "case fst (process_try server json_loads cat prompt r tr) of
              Inl e \<Rightarrow> [] | Inr entry \<Rightarrow> [entry]"
  let ?b = "case fst (process_try server json_loads cat prompt r tr) of
              Inl e \<Rightarrow> [\<lparr> e_docid = docid r, e_category = cat, e_errors = e,
                           e_error_stage = None,
                           e_time = clock (snd (process_try server json_loads cat prompt r tr)) \<rparr>]
            | Inr entry \<Rightarrow> []"
  let ?t = "snd (process_try server json_loads cat prompt r tr)
              @ (case fst (process_try server json_loads cat prompt r tr) of
                   Inl e \<Rightarrow> [Now, Sleep 6] | Inr entry \<Rightarrow> [Sleep 6])"
  obtain R E tr' where rest:
    "fold (process_iteration server json_loads clock cat prompt) rs ([], [], ?t) = (R, E, tr')"
    by (metis prod_cases3)
  have one: "fold (process_iteration server json_loads clock cat prompt) rs (xs, ys, ?t)
               = (xs @ R, ys @ E, tr')" for xs ys
    using Cons.IH [of xs ys ?t] rest by simp
  show ?case
    by (simp add: process_iteration_parts one)
qed

text \<open>The run on a frame is the run on its first rows followed by the run on the other
  rows, started with the events of the first.\<close>

lemma process_dataframe_append:
  "returned_results (process_dataframe server json_loads clock (Table (xs @ ys)) cat prompt tr)
     = returned_results (process_dataframe server json_loads clock (Table xs) cat prompt tr)
       @ returned_results (process_dataframe server json_loads clock (Table ys) cat prompt
            (snd (process_dataframe server json_loads clock (Table xs) cat prompt tr)))"
  "returned_errors (process_dataframe server json_loads clock (Table (xs @ ys)) cat prompt tr)
     = returned_errors (process_dataframe server json_loads clock (Table xs) cat prompt tr)
       @ returned_errors (process_dataframe server json_loads clock (Table ys) cat prompt
            (snd (process_dataframe server json_loads clock (Table xs) cat prompt tr)))"
  "snd (process_dataframe server json_loads clock (Table (xs @ ys)) cat prompt tr)
     = snd (process_dataframe server json_loads clock (Table ys) cat prompt
            (snd (process_dataframe server json_loads clock (Table xs) cat prompt tr)))"
proof -
  let ?f = "process_iteration server json_loads clock cat prompt"
  obtain R1 E1 tr1 where a:
    "fold ?f (filter (\<lambda>r. category r = cat) xs) ([], [], tr) = (R1, E1, tr1)"
    by (metis prod_cases3)
  obtain R2 E2 tr2 where b:
    "fold ?f (filter (\<lambda>r. category r = cat) ys) ([], [], tr1) = (R2, E2, tr2)"
    by (metis prod_cases3)
  have ab: "fold ?f (filter (\<lambda>r. category r = cat) (xs @ ys)) ([], [], tr)
              = (R1 @ R2, E1 @ E2, tr2)"
    using process_fold_acc [of server json_loads clock cat prompt
        "filter (\<lambda>r. category r = cat) ys" R1 E1 tr1]
    by (simp add: a b)
  show "returned_results (process_dataframe server json_loads clock (Table (xs @ ys)) cat prompt tr)
     = returned_results (process_dataframe server json_loads clock (Table xs) cat prompt tr)
       @ returned_results (process_dataframe server json_loads clock (Table ys) cat prompt
            (snd (process_dataframe server json_loads clock (Table xs) cat prompt tr)))"
    using a b ab
    by (simp add: process_dataframe_def returned_results_def rows_of_DataFrame Let_def
          del: filter_append)
  show "returned_errors (process_dataframe server json_loads clock (Table (xs @ ys)) cat prompt tr)
     = returned_errors (process_dataframe server json_loads clock (Table xs) cat prompt tr)
       @ returned_errors (process_dataframe server json_loads clock (Table ys) cat prompt
            (snd (process_dataframe server json_loads clock (Table xs) cat prompt tr)))"
    using a b ab
    by (simp add: process_dataframe_def returned_errors_def rows_of_DataFrame Let_def
          del: filter_append)
  show "snd (process_dataframe server json_loads clock (Table (xs @ ys)) cat prompt tr)
     = snd (process_dataframe server json_loads clock (Table ys) cat prompt
            (snd (process_dataframe server json_loads clock (Table xs) cat prompt tr)))"
    using a b ab
    by (simp add: process_dataframe_def Let_def del: filter_append)
qed

text \<open>The run on a single row of the category whose processing raises.\<close>

lemma process_dataframe_failing:
  assumes "category r = cat"
    and "fst (process_try server json_loads cat prompt r tr) = Inl e"
  shows "process_dataframe server json_loads clock (Table [r]) cat prompt tr =
           (Inr (NoColumns,
                 Table [\<lparr> e_docid = docid r, e_category = cat, e_errors = e,
                          e_error_stage = None,
                          e_time = clock (snd (process_try server json_loads cat prompt r tr)) \<rparr>]),
            snd (process_try server json_loads cat prompt r tr) @ [Now, Sleep 6])"
  using assms by (simp add: process_dataframe_def process_iteration_parts DataFrame_def)

text \<open>An endpoint whose reply depends on the request only.\<close>

lemma call_clova_api_stateless:
  assumes "\<forall>h h' m. server h m = server h' m"
  shows "fst (call_clova_api server json_loads m tr) = fst (call_clova_api server json_loads m tr')"
proof -
  from assms have "server tr m = server tr' m" by blast
  then show ?thesis by (simp add: call_clova_api_def)
qed

lemma process_try_stateless:
  assumes "\<forall>h h' m. server h m = server h' m"
  shows "fst (process_try server json_loads cat prompt r tr)
           = fst (process_try server json_loads cat prompt r tr')"
  using call_clova_api_stateless [OF assms, of json_loads
      "chat_messages prompt (truncate_context r)" tr tr']
  by (auto simp: process_try_def Let_def call_clova_api_def split: prod.splits sum.splits)

lemma process_fold_stateless:
  assumes "\<forall>h h' m. server h m = server h' m"
  shows "\<exists>E tr'. fold (process_iteration server json_loads clock cat prompt) rs (results, errors, tr) =
     (results @ concat (map (\<lambda>r. case fst (process_try server json_loads cat prompt r []) of
                                    Inl e \<Rightarrow> [] | Inr entry \<Rightarrow> [entry]) rs),
      errors @ E, tr')
     \<and> map without_time E =
         concat (map (\<lambda>r. case fst (process_try server json_loads cat prompt r []) of
                            Inl e \<Rightarrow> [\<lparr> e_docid = docid r, e_category = cat,
                                         e_errors = e, e_error_stage = None, e_time = [] \<rparr>]
                          | Inr entry \<Rightarrow> []) rs)"
proof (induction rs arbitrary: results errors tr)
  case Nil
  show ?case by simp
next
  case (Cons r rs)
  have same: "fst (process_try server json_loads cat prompt r tr)
                = fst (process_try server json_loads cat prompt r [])"
    by (rule process_try_stateless [OF assms])
  let ?a = "case fst (process_try server json_loads cat prompt r []) of
              Inl e \<Rightarrow> [] | Inr entry \<Rightarrow> [entry]"
  let ?b = "case fst (process_try server json_loads cat prompt r []) of
              Inl e \<Rightarrow> [\<lparr> e_docid = docid r, e_category = cat, e_errors = e,
                           e_error_stage = None,
                           e_time = clock (snd (process_try server json_loads cat prompt r tr)) \<rparr>]
            | Inr entry \<Rightarrow> []"
  let ?t = "snd (process_try server json_loads cat prompt r tr)
              @ (case fst (process_try server json_loads cat prompt r []) of
                   Inl e \<Rightarrow> [Now, Sleep 6] | Inr entry \<Rightarrow> [Sleep 6])"
  from Cons.IH [of "results @ ?a" "errors @ ?b" ?t]
  obtain E tr' where rest:
    "fold (process_iteration server json_loads clock cat prompt) rs (results @ ?a, errors @ ?b, ?t) =
       ((results @ ?a) @ concat (map (\<lambda>r. case fst (process_try server json_loads cat prompt r []) of
                                    Inl e \<Rightarrow> [] | Inr entry \<Rightarrow> [entry]) rs),
        (errors @ ?b) @ E, tr')"
    and times: "map without_time E =
         concat (map (\<lambda>r. case fst (process_try server json_loads cat prompt r []) of
                            Inl e \<Rightarrow> [\<lparr> e_docid = docid r, e_category = cat,
                                         e_errors = e, e_error_stage = None, e_time = [] \<rparr>]
                          | Inr entry \<Rightarrow> []) rs)"
    by blast
  have b: "map without_time ?b =
             (case fst (process_try server json_loads cat prompt r []) of
                Inl e \<Rightarrow> [\<lparr> e_docid = docid r, e_category = cat, e_errors = e,
                             e_error_stage = None, e_time = [] \<rparr>]
              | Inr entry \<Rightarrow> [])"
    by (simp add: without_time_def split: sum.splits)
  have "fold (process_iteration server json_loads clock cat prompt) (r # rs) (results, errors, tr) =
     (results @ concat (map (\<lambda>r. case fst (process_try server json_loads cat prompt r []) of
                                    Inl e \<Rightarrow> [] | Inr entry \<Rightarrow> [entry]) (r # rs)),
      errors @ (?b @ E), tr')"
    using rest by (simp add: process_iteration_parts same)
  moreover have "map without_time (?b @ E) =
         concat (map (\<lambda>r. case fst (process_try server json_loads cat prompt r []) of
                            Inl e \<Rightarrow> [\<lparr> e_docid = docid r, e_category = cat,
                                         e_errors = e, e_error_stage = None, e_time = [] \<rparr>]
                          | Inr entry \<Rightarrow> []) (r # rs))"
    using b times by simp
  ultimately show ?case by blast
qed

lemma process_dataframe_stateless:
  assumes "\<forall>h h' m. server h m = server h' m"
  shows "returned_results (process_dataframe server json_loads clock (Table rows) cat prompt tr) =
           concat (map (\<lambda>r. case fst (process_try server json_loads cat prompt r []) of
                              Inl e \<Rightarrow> [] | Inr entry \<Rightarrow> [entry])
                       (filter (\<lambda>r. category r = cat) rows))"
    and "map without_time
           (returned_errors (process_dataframe server json_loads clock (Table rows) cat prompt tr)) =
           concat (map (\<lambda>r. case fst (process_try server json_loads cat prompt r []) of
                              Inl e \<Rightarrow> [\<lparr> e_docid = docid r, e_category = cat,
                                           e_errors = e, e_error_stage = None, e_time = [] \<rparr>]
                            | Inr entry \<Rightarrow> [])
                       (filter (\<lambda>r. category r = cat) rows))"
proof -
  from process_fold_stateless [OF assms, of json_loads clock cat prompt
      "filter (\<lambda>r. category r = cat) rows" "[]" "[]" tr]
  obtain E tr' where run: "fold (process_iteration server json_loads clock cat prompt)
      (filter (\<lambda>r. category r = cat) rows) ([], [], tr) =
      (concat (map (\<lambda>r. case fst (process_try server json_loads cat prompt r []) of
                                    Inl e \<Rightarrow> [] | Inr entry \<Rightarrow> [entry])
           (filter (\<lambda>r. category r = cat) rows)), E, tr')"
    and times: "map without_time E =
       concat (map (\<lambda>r. case fst (process_try server json_loads cat prompt r []) of
                                   Inl e \<Rightarrow> [\<lparr> e_docid = docid r, e_category = cat,
                                                e_errors = e, e_error_stage = None, e_time = [] \<rparr>]
                                 | Inr entry \<Rightarrow> [])
           (filter (\<lambda>r. category r = cat) rows))"
    by auto
  from run show "returned_results (process_dataframe server json_loads clock (Table rows) cat prompt tr) =
           concat (map (\<lambda>r. case fst (process_try server json_loads cat prompt r []) of
                              Inl e \<Rightarrow> [] | Inr entry \<Rightarrow> [entry])
                       (filter (\<lambda>r. category r = cat) rows))"
    by (simp add: process_dataframe_def returned_results_def rows_of_DataFrame Let_def)
  from run times show "map without_time
           (returned_errors (process_dataframe server json_loads clock (Table rows) cat prompt tr)) =
           concat (map (\<lambda>r. case fst (process_try server json_loads cat prompt r []) of
                              Inl e \<Rightarrow> [\<lparr> e_docid = docid r, e_category = cat,
                                           e_errors = e, e_error_stage = None, e_time = [] \<rparr>]
                            | Inr entry \<Rightarrow> [])
                       (filter (\<lambda>r. category r = cat) rows))"
    by (simp add: process_dataframe_def returned_errors_def rows_of_DataFrame Let_def)
qed

text \<open>
  C9, as claimed: for every input dataframe \<open>process_dataframe\<close> never raises, and the
  results and error entries of the rows after a failing row are what they would be without
  that row. Two runs show otherwise. On \<open>pd.DataFrame([])\<close>, which has no \<open>category\<close>
  column, the filter of line 92 raises \<open>KeyError\<close> outside the \<open>try\<close>. And against an
  endpoint whose first request of a run times out, the row of docid 1 raises and the row of
  docid 3 after it gets its result entry, while without the row of docid 1 the row of
  docid 3 is the one that raises and ends in the error frame.
\<close>

theorem failing_row_changes_later_rows:
  "process_dataframe server_cold loads_table clock_noon NoColumns (ascii ''tone'')
      (ascii ''classify'') []
     = (Inl (KeyError (ascii ''category'')), [])
   \<and> fst (process_try server_cold loads_table (ascii ''tone'') (ascii ''classify'') (row_of 1) [])
       = Inl (Exception (ascii ''Request failed: timed out''))
   \<and> process_dataframe server_cold loads_table clock_noon (Table [row_of 1, row_of 3])
        (ascii ''tone'') (ascii ''classify'') []
     = (Inr (Table [entry_of 3],
             Table [\<lparr> e_docid = 1, e_category = ascii ''tone'',
                      e_errors = Exception (ascii ''Request failed: timed out''),
                      e_error_stage = None, e_time = noon \<rparr>]),
        [Post messages_abc, Now, Sleep 6, Post messages_abc, Sleep 6])
   \<and> process_dataframe server_cold loads_table clock_noon (Table [row_of 3])
        (ascii ''tone'') (ascii ''classify'') []
     = (Inr (NoColumns,
             Table [\<lparr> e_docid = 3, e_category = ascii ''tone'',
                      e_errors = Exception (ascii ''Request failed: timed out''),
                      e_error_stage = None, e_time = noon \<rparr>]),
        [Post messages_abc, Now, Sleep 6])"
  by (simp add: process_dataframe_def process_iteration_def row_of_category row_of_docid
        cold_first cold_later DataFrame_def clock_noon_def)

text \<open>
  C9, amended. On a frame that has the columns the program reads \<open>process_dataframe\<close>
  returns its two frames, whatever the endpoint, the decoder and the clock do; on a frame
  without columns it raises the \<open>KeyError\<close> of line 92 before any request. A row of the category whose
  processing raises \<open>e\<close> adds no result entry and one error entry holding \<open>e\<close>, and the
  rows after it are processed as in a run on them alone that starts with the events made
  so far. When the reply of the endpoint depends on the request only, the result entries
  are those of the run without the failing row, and the error entries, their time field
  apart, are those of the rows before it, its own entry, and those of the rows after it,
  the latter two groups without its own entry being the error entries of the run without
  the failing row.
\<close>

theorem failing_row_does_not_disturb:
  "(\<exists>result_df1 errors_df1 tr1.
      process_dataframe server json_loads clock (Table rows) cat prompt tr
        = (Inr (result_df1, errors_df1), tr1))
   \<and> process_dataframe server json_loads clock NoColumns cat prompt tr
       = (Inl (KeyError (ascii ''category'')), tr)
   \<and> (category r = cat
        \<and> fst (process_try server json_loads cat prompt r
                 (snd (process_dataframe server json_loads clock (Table pre) cat prompt tr)))
            = Inl e
       \<longrightarrow> returned_results
             (process_dataframe server json_loads clock (Table (pre @ r # post)) cat prompt tr)
           = returned_results
               (process_dataframe server json_loads clock (Table pre) cat prompt tr)
             @ returned_results
                 (process_dataframe server json_loads clock (Table post) cat prompt
                    (snd (process_dataframe server json_loads clock (Table (pre @ [r])) cat
                            prompt tr)))
         \<and> returned_errors
             (process_dataframe server json_loads clock (Table (pre @ r # post)) cat prompt tr)
           = returned_errors
               (process_dataframe server json_loads clock (Table pre) cat prompt tr)
             @ [\<lparr> e_docid = docid r, e_category = cat, e_errors = e, e_error_stage = None,
                  e_time = clock (snd (process_try server json_loads cat prompt r
                             (snd (process_dataframe server json_loads clock (Table pre) cat
                                     prompt tr)))) \<rparr>]
             @ returned_errors
                 (process_dataframe server json_loads clock (Table post) cat prompt
                    (snd (process_dataframe server json_loads clock (Table (pre @ [r])) cat
                            prompt tr))))
   \<and> ((\<forall>h h' m. server h m = server h' m) \<and> category r = cat
        \<and> fst (process_try server json_loads cat prompt r h0) = Inl e
       \<longrightarrow> returned_results
             (process_dataframe server json_loads clock (Table (pre @ r # post)) cat prompt tr)
           = returned_results
               (process_dataframe server json_loads clock (Table (pre @ post)) cat prompt tr)
         \<and> map without_time (returned_errors
             (process_dataframe server json_loads clock (Table (pre @ r # post)) cat prompt tr))
           = map without_time (returned_errors
               (process_dataframe server json_loads clock (Table pre) cat prompt tr))
             @ [\<lparr> e_docid = docid r, e_category = cat, e_errors = e, e_error_stage = None,
                  e_time = [] \<rparr>]
             @ map without_time (returned_errors
                 (process_dataframe server json_loads clock (Table post) cat prompt tr))
         \<and> map without_time (returned_errors
             (process_dataframe server json_loads clock (Table (pre @ post)) cat prompt tr))
           = map without_time (returned_errors
               (process_dataframe server json_loads clock (Table pre) cat prompt tr))
             @ map without_time (returned_errors
                 (process_dataframe server json_loads clock (Table post) cat prompt tr)))"
proof (intro conjI impI)
  show "\<exists>result_df1 errors_df1 tr1.
      process_dataframe server json_loads clock (Table rows) cat prompt tr
        = (Inr (result_df1, errors_df1), tr1)"
    by (simp add: process_dataframe_def Let_def split: prod.splits)
  show "process_dataframe server json_loads clock NoColumns cat prompt tr
       = (Inl (KeyError (ascii ''category'')), tr)"
    by (simp add: process_dataframe_def)
next
  let ?pd = "process_dataframe server json_loads clock"
  let ?tr1 = "snd (?pd (Table pre) cat prompt tr)"
  assume a: "category r = cat
        \<and> fst (process_try server json_loads cat prompt r ?tr1) = Inl e"
  note one = process_dataframe_failing [of r cat server json_loads prompt ?tr1 e clock]
  have split: "pre @ r # post = (pre @ [r]) @ post" by simp
  show "returned_results (?pd (Table (pre @ r # post)) cat prompt tr)
           = returned_results (?pd (Table pre) cat prompt tr)
             @ returned_results (?pd (Table post) cat prompt
                    (snd (?pd (Table (pre @ [r])) cat prompt tr)))"
    using a one
    by (simp only: split process_dataframe_append [of _ _ _ "pre @ [r]" post]
          process_dataframe_append [of _ _ _ pre "[r]"])
       (simp add: returned_results_def)
  show "returned_errors (?pd (Table (pre @ r # post)) cat prompt tr)
           = returned_errors (?pd (Table pre) cat prompt tr)
             @ [\<lparr> e_docid = docid r, e_category = cat, e_errors = e, e_error_stage = None,
                  e_time = clock (snd (process_try server json_loads cat prompt r ?tr1)) \<rparr>]
             @ returned_errors (?pd (Table post) cat prompt
                    (snd (?pd (Table (pre @ [r])) cat prompt tr)))"
    using a one
    by (simp only: split process_dataframe_append [of _ _ _ "pre @ [r]" post]
          process_dataframe_append [of _ _ _ pre "[r]"])
       (simp add: returned_errors_def)
next
  let ?pd = "process_dataframe server json_loads clock"
  assume a: "(\<forall>h h' m. server h m = server h' m) \<and> category r = cat
        \<and> fst (process_try server json_loads cat prompt r h0) = Inl e"
  then have stateless: "\<forall>h h' m. server h m = server h' m" and cat: "category r = cat"
    and fails: "fst (process_try server json_loads cat prompt r h0) = Inl e"
    by blast+
  have fails0: "fst (process_try server json_loads cat prompt r []) = Inl e"
    using process_try_stateless [OF stateless, of json_loads cat prompt r "[]" h0] fails by simp
  show "returned_results (?pd (Table (pre @ r # post)) cat prompt tr)
           = returned_results (?pd (Table (pre @ post)) cat prompt tr)"
    using cat fails0 by (simp add: process_dataframe_stateless [OF stateless])
  show "map without_time (returned_errors (?pd (Table (pre @ r # post)) cat prompt tr))
           = map without_time (returned_errors (?pd (Table pre) cat prompt tr))
             @ [\<lparr> e_docid = docid r, e_category = cat, e_errors = e, e_error_stage = None,
                  e_time = [] \<rparr>]
             @ map without_time (returned_errors (?pd (Table post) cat prompt tr))"
    using cat fails0 by (simp add: process_dataframe_stateless [OF stateless])
  show "map without_time (returned_errors (?pd (Table (pre @ post)) cat prompt tr))
           = map without_time (returned_errors (?pd (Table pre) cat prompt tr))
             @ map without_time (returned_errors (?pd (Table post) cat prompt tr))"
    by (simp add: process_dataframe_stateless [OF stateless])
qed

text \<open>A run against the endpoint that answers only for the content \<open>abc\<close>: the row with
  the content \<open>xyz\<close> fails, the rows around it are processed as without it.\<close>

theorem failing_row_does_not_disturb_witness:
  "(\<forall>h h' m. server_mixed h m = server_mixed h' m)
   \<and> category row_xyz = ascii ''tone''
   \<and> fst (process_try server_mixed loads_table (ascii ''tone'') (ascii ''classify'') row_xyz [])
       = Inl (Exception policy_error)
   \<and> returned_results (process_dataframe server_mixed loads_table clock_noon
        (Table [row_of 1, row_xyz, row_of 3]) (ascii ''tone'') (ascii ''classify'') [])
       = [entry_of 1, entry_of 3]
   \<and> returned_results (process_dataframe server_mixed loads_table clock_noon
        (Table [row_of 1, row_of 3]) (ascii ''tone'') (ascii ''classify'') [])
       = [entry_of 1, entry_of 3]
   \<and> returned_errors (process_dataframe server_mixed loads_table clock_noon
        (Table [row_of 1, row_xyz, row_of 3]) (ascii ''tone'') (ascii ''classify'') [])
       = [\<lparr> e_docid = 2, e_category = ascii ''tone'', e_errors = Exception policy_error,
            e_error_stage = None, e_time = noon \<rparr>]
   \<and> returned_errors (process_dataframe server_mixed loads_table clock_noon
        (Table [row_of 1, row_of 3]) (ascii ''tone'') (ascii ''classify'') [])
       = []"
proof -
  let ?pd = "process_dataframe server_mixed loads_table clock_noon"
  have stateless: "\<forall>h h' m. server_mixed h m = server_mixed h' m"
    by (simp add: server_mixed_def)
  have cat: "category row_xyz = ascii ''tone''" by (simp add: row_xyz_def)
  have fails: "fst (process_try server_mixed loads_table (ascii ''tone'') (ascii ''classify'')
                      row_xyz h) = Inl (Exception policy_error)" for h
    by (simp add: mixed_xyz)
  have run: "?pd (Table [row_of d]) (ascii ''tone'') (ascii ''classify'') h
               = (Inr (Table [entry_of d], NoColumns), h @ [Post messages_abc, Sleep 6])" for d h
    by (simp add: process_dataframe_def process_iteration_def row_of_category mixed_ok
          DataFrame_def)
  have without: "?pd (Table [row_of 1, row_of 3]) (ascii ''tone'') (ascii ''classify'') []
               = (Inr (Table [entry_of 1, entry_of 3], NoColumns),
                  [Post messages_abc, Sleep 6, Post messages_abc, Sleep 6])"
    by (simp add: process_dataframe_def process_iteration_def row_of_category mixed_ok
          DataFrame_def)
  from failing_row_does_not_disturb [of server_mixed loads_table clock_noon "[]"
      "ascii ''tone''" "ascii ''classify''" "[]" row_xyz "[row_of 1]" "Exception policy_error"
      "[row_of 3]" "[]"]
  have results: "returned_results (?pd (Table ([row_of 1] @ row_xyz # [row_of 3]))
                    (ascii ''tone'') (ascii ''classify'') [])
                 = returned_results (?pd (Table ([row_of 1] @ [row_of 3]))
                    (ascii ''tone'') (ascii ''classify'') [])"
    and errors: "returned_errors (?pd (Table ([row_of 1] @ row_xyz # [row_of 3]))
                    (ascii ''tone'') (ascii ''classify'') [])
           = returned_errors (?pd (Table [row_of 1]) (ascii ''tone'') (ascii ''classify'') [])
             @ [\<lparr> e_docid = docid row_xyz, e_category = ascii ''tone'',
                  e_errors = Exception policy_error, e_error_stage = None,
                  e_time = clock_noon (snd (process_try server_mixed loads_table (ascii ''tone'')
                             (ascii ''classify'') row_xyz
                             (snd (?pd (Table [row_of 1]) (ascii ''tone'') (ascii ''classify'')
                                     [])))) \<rparr>]
             @ returned_errors (?pd (Table [row_of 3]) (ascii ''tone'') (ascii ''classify'')
                    (snd (?pd (Table ([row_of 1] @ [row_xyz])) (ascii ''tone'')
                            (ascii ''classify'') [])))"
    using stateless cat fails by blast+
  from results errors show ?thesis
    using stateless cat fails [of "[]"]
    by (simp add: without run returned_results_def returned_errors_def clock_noon_def
          row_xyz_def)
qed

subsection \<open>What is sent to the endpoint\<close>

lemma user_contents_append: "user_contents (a @ b) = user_contents a @ user_contents b"
  by (simp add: user_contents_def)

lemma user_contents_Nil: "user_contents [] = []"
  by (simp add: user_contents_def)

lemma user_contents_Post:
  "user_contents (Post (chat_messages prompt c) # tr) = c # user_contents tr"
  by (simp add: user_contents_def chat_messages_def ascii_def)

lemma user_contents_Sleep: "user_contents (Sleep n # tr) = user_contents tr"
  by (simp add: user_contents_def)

lemma user_contents_Now: "user_contents (Now # tr) = user_contents tr"
  by (simp add: user_contents_def)

lemmas user_contents_simps =
  user_contents_append user_contents_Nil user_contents_Post user_contents_Sleep user_contents_Now

lemma process_try_trace:
  "snd (process_try server json_loads cat prompt r tr)
     = tr @ [Post (chat_messages prompt (truncate_context r))]"
  using call_clova_api_trace [of server json_loads "chat_messages prompt (truncate_context r)" tr]
  by (auto simp: process_try_def Let_def split: prod.splits sum.splits)

text \<open>Each iteration of the batch loop posts one request and ends with the sleep of 6
  seconds; the handler reads the clock in between.\<close>

lemma process_iteration_trace:
  "snd (snd (process_iteration server json_loads clock cat prompt r (results, errors, tr)))
     = tr @ [Post (chat_messages prompt (truncate_context r))]
          @ (case fst (process_try server json_loads cat prompt r tr) of
               Inl e \<Rightarrow> [Now, Sleep 6] | Inr entry \<Rightarrow> [Sleep 6])"
  by (simp add: process_iteration_parts process_try_trace)

lemma process_iteration_user_contents:
  "user_contents (snd (snd (process_iteration server json_loads clock cat prompt r
                              (results, errors, tr))))
     = user_contents tr @ [truncate_context r]"
  by (simp add: process_iteration_trace user_contents_simps split: sum.splits)

lemma process_fold_user_contents:
  "user_contents (snd (snd (fold (process_iteration server json_loads clock cat prompt) rs
                              (results, errors, tr))))
     = user_contents tr @ map truncate_context rs"
proof (induction rs arbitrary: results errors tr)
  case Nil
  show ?case by simp
next
  case (Cons r rs)
  obtain results1 errors1 tr1 where step:
    "process_iteration server json_loads clock cat prompt r (results, errors, tr)
       = (results1, errors1, tr1)"
    by (metis prod_cases3)
  with process_iteration_user_contents [of server json_loads clock cat prompt r results errors tr]
  have "user_contents tr1 = user_contents tr @ [truncate_context r]" by simp
  with Cons.IH [of results1 errors1 tr1] step show ?case by simp
qed

lemma process_dataframe_user_contents:
  "user_contents (snd (process_dataframe server json_loads clock df cat prompt tr))
     = user_contents tr @ map truncate_context (filter (\<lambda>r. category r = cat) (rows_of df))"
proof (cases df)
  case NoColumns
  then show ?thesis by (simp add: process_dataframe_def)
next
  case (Table rows)
  with process_fold_user_contents [of server json_loads clock cat prompt
      "filter (\<lambda>r. category r = cat) rows" "[]" "[]" tr]
  show ?thesis by (auto simp: process_dataframe_def Let_def split: prod.splits)
qed

text \<open>
  C6. The claim: a delay of 6 seconds follows every call of the batch processor and of the
  retry driver. In the retry driver the \<open>continue\<close> of line 277 leaves the iteration before
  the sleep of line 350: after the call for docid 1, answered with code 40005, the run only
  reads the clock twice, for its log entry and its error entry. The batch processor, given
  the same row and the same answer, does sleep after the call.
\<close>

theorem policy_row_no_delay:
  "snd (snd (snd (retry_failed_rows server_policy loads_table clock_noon (Table [error_of 1])
                    (Table [row_of 1]) NoColumns prompts_tone 1 [])))
     = [Post messages_abc, Now, Now]
   \<and> snd (process_dataframe server_policy loads_table clock_noon (Table [row_of 1])
            (ascii ''tone'') (ascii ''classify'') [])
       = [Post messages_abc, Now, Sleep 6]"
  by (simp add: retry_failed_rows_def Let_def policy_loop_once process_dataframe_def
        process_iteration_def row_of_category policy_try)

lemma truncate_context_bound:
  "(6500 < int (length (content r)) \<longrightarrow> 6500 < len_context r) \<Longrightarrow> length (truncate_context r) \<le> 6500"
  by (auto simp: truncate_context_def)

lemma retry_response_contents:
  "retry_response json_loads clock error_row r response_json error st = (fl, st')
   \<Longrightarrow> user_contents (p_trace st') = user_contents (p_trace st)"
  by (auto simp: retry_response_def skip_row_def user_contents_simps
           split: if_splits sum.splits)

lemma retry_try_contents:
  assumes "retry_try server json_loads clock df prompts error_row st = (fl, st')"
  shows "user_contents (p_trace st') = user_contents (p_trace st)
       \<or> (\<exists>r \<in> set (rows_of df).
             user_contents (p_trace st') = user_contents (p_trace st) @ [truncate_context r])"
proof (cases df)
  case NoColumns
  with assms show ?thesis by (simp add: retry_try_def)
next
  case (Table rows)
  show ?thesis
  proof (cases "filter (\<lambda>r. docid r = e_docid error_row \<and> category r = e_category error_row) rows")
    case Nil
    with assms Table show ?thesis
      by (auto simp: retry_try_def skip_row_def user_contents_simps)
  next
    case (Cons r others)
    then have "r \<in> set (filter (\<lambda>r. docid r = e_docid error_row
                                     \<and> category r = e_category error_row) rows)"
      by simp
    then have r: "r \<in> set (rows_of df)" using Table by simp
    show ?thesis
    proof (cases "prompts (category r)")
      case None
      with assms Table Cons show ?thesis by (auto simp: retry_try_def Let_def)
    next
      case (Some p)
      obtain reply tr' where c:
        "call_clova_api server json_loads (chat_messages p (truncate_context r)) (p_trace st)
           = (reply, tr')"
        by (cases "call_clova_api server json_loads (chat_messages p (truncate_context r))
                     (p_trace st)")
      with call_clova_api_trace [of server json_loads "chat_messages p (truncate_context r)"
          "p_trace st"]
      have tr': "tr' = p_trace st @ [Post (chat_messages p (truncate_context r))]" by simp
      then have u: "user_contents tr' = user_contents (p_trace st) @ [truncate_context r]"
        by (simp add: user_contents_simps)
      have "user_contents (p_trace st') = user_contents tr'"
      proof (cases reply)
        case (Inl e)
        with assms Table Cons Some c show ?thesis by (auto simp: retry_try_def Let_def)
      next
        case (Inr pair)
        obtain response_json error where pair: "pair = (response_json, error)"
          by (cases pair)
        from assms Table Cons Some c Inr pair
        have "retry_response json_loads clock error_row r response_json error
                (st \<lparr> p_trace := tr' \<rparr>) = (fl, st')"
          by (simp add: retry_try_def Let_def)
        from retry_response_contents [OF this] show ?thesis by simp
      qed
      with u r show ?thesis by auto
    qed
  qed
qed

lemma retry_iteration_contents:
  "set (user_contents (p_trace (retry_iteration server json_loads clock df prompts error_row st)))
     \<subseteq> set (user_contents (p_trace st)) \<union> truncate_context ` set (rows_of df)"
proof -
  obtain fl st' where t: "retry_try server json_loads clock df prompts error_row st = (fl, st')"
    by (cases "retry_try server json_loads clock df prompts error_row st")
  from retry_try_contents [OF t]
  have a: "set (user_contents (p_trace st'))
             \<subseteq> set (user_contents (p_trace st)) \<union> truncate_context ` set (rows_of df)"
    by auto
  show ?thesis
    using a
    by (cases fl) (auto simp: retry_iteration_def t retry_except_def Let_def user_contents_simps)
qed

lemma retry_fold_contents:
  "set (user_contents (p_trace (fold (retry_iteration server json_loads clock df prompts) es st)))
     \<subseteq> set (user_contents (p_trace st)) \<union> truncate_context ` set (rows_of df)"
proof (induction es arbitrary: st)
  case Nil
  show ?case by simp
next
  case (Cons e es)
  from Cons.IH [of "retry_iteration server json_loads clock df prompts e st"]
    retry_iteration_contents [of server json_loads clock df prompts e st]
  show ?case by auto
qed

lemma retry_attempt_contents:
  "set (user_contents (trace (retry_attempt server json_loads clock df prompts s)))
     \<subseteq> set (user_contents (trace s)) \<union> truncate_context ` set (rows_of df)"
  using retry_fold_contents [of server json_loads clock df prompts "rows_of (errors_df s)"
      "\<lparr> p_result_df = result_df s, p_new_errors = [], p_logs = [], p_trace = trace s \<rparr>"]
  by (simp add: retry_attempt_def Let_def)

lemma retry_loop_contents:
  "set (user_contents (trace (retry_loop server json_loads clock df prompts max_retries s)))
     \<subseteq> set (user_contents (trace s)) \<union> truncate_context ` set (rows_of df)"
proof (induction server json_loads clock df prompts max_retries s rule: retry_loop.induct)
  case (1 server json_loads clock df prompts max_retries s)
  show ?case
  proof (cases "\<not> frame_empty (errors_df s) \<and> retry_count s < max_retries")
    case True
    then have "retry_loop server json_loads clock df prompts max_retries s
        = retry_loop server json_loads clock df prompts max_retries
            (retry_attempt server json_loads clock df prompts s)"
      by (subst retry_loop.simps) simp
    with True "1.IH" retry_attempt_contents [of server json_loads clock df prompts s]
    show ?thesis by auto
  next
    case False
    then have "retry_loop server json_loads clock df prompts max_retries s = s"
      by (subst retry_loop.simps) auto
    then show ?thesis by simp
  qed
qed

lemma retry_failed_rows_contents:
  "set (user_contents (snd (snd (snd (retry_failed_rows server json_loads clock errors_df0 df
                                        result_df0 prompts max_retries tr)))))
     \<subseteq> set (user_contents tr) \<union> truncate_context ` set (rows_of df)"
  using retry_loop_contents [of server json_loads clock df prompts max_retries
      "\<lparr> retry_count = 0, errors_df = errors_df0, result_df = result_df0, all_logs = [], trace = tr \<rparr>"]
  by (simp add: retry_failed_rows_def Let_def)

text \<open>
  C5, as stated: the user message passed to the completion client never exceeds 6500
  characters. The test of line 103 reads the \<open>len_context\<close> column, not the content: a row
  with 6501 characters of content and 0 in that column is sent whole.
\<close>

theorem long_content_sent_whole:
  "\<exists>c \<in> set (user_contents (snd (process_dataframe server_ok loads_table clock_noon
                                     (Table [row_long]) (ascii ''tone'') (ascii ''classify'') []))).
      6500 < length c"
  by (simp add: process_dataframe_user_contents user_contents_Nil row_long_def
        truncate_context_def)

text \<open>
  C5, amended. A row whose \<open>len_context\<close> column exceeds 6500 is sent as the first 6500
  characters of its content. When, for every row of the dataframe, the column exceeds 6500
  whenever the content is longer than 6500 characters (as it does when the column holds the
  length of the content), no user message posted by \<open>process_dataframe\<close> or by
  \<open>retry_failed_rows\<close> is longer than 6500 characters; \<open>process_dataframe\<close> posts exactly
  the truncated contents of the rows of the category, in order.
\<close>

theorem truncation_by_column:
  assumes "\<forall>r \<in> set (rows_of df). 6500 < int (length (content r)) \<longrightarrow> 6500 < len_context r"
    and "\<forall>c \<in> set (user_contents tr). length c \<le> 6500"
  shows "(\<forall>c \<in> set (user_contents (snd (process_dataframe server json_loads clock df cat prompt tr))).
            length c \<le> 6500)
       \<and> (\<forall>c \<in> set (user_contents (snd (snd (snd (retry_failed_rows server json_loads clock
                                                    errors_df0 df result_df0 prompts max_retries
                                                    tr))))).
            length c \<le> 6500)
       \<and> user_contents (snd (process_dataframe server json_loads clock df cat prompt tr))
           = user_contents tr
             @ map truncate_context (filter (\<lambda>r. category r = cat) (rows_of df))
       \<and> (\<forall>r. 6500 < len_context r \<longrightarrow> truncate_context r = take 6500 (content r))"
proof (intro conjI ballI allI impI)
  have bound: "length (truncate_context r) \<le> 6500" if "r \<in> set (rows_of df)" for r
    using assms(1) that by (intro truncate_context_bound) blast
  {
    fix c
    assume "c \<in> set (user_contents (snd (process_dataframe server json_loads clock df cat prompt tr)))"
    then have "c \<in> set (user_contents tr) \<or> (\<exists>r \<in> set (rows_of df). c = truncate_context r)"
      by (auto simp: process_dataframe_user_contents)
    with assms(2) bound show "length c \<le> 6500" by auto
  }
  {
    fix c
    assume "c \<in> set (user_contents (snd (snd (snd (retry_failed_rows server json_loads clock
                                                    errors_df0 df result_df0 prompts max_retries
                                                    tr)))))"
    with retry_failed_rows_contents [of server json_loads clock errors_df0 df result_df0 prompts
        max_retries tr]
    have "c \<in> set (user_contents tr) \<or> (\<exists>r \<in> set (rows_of df). c = truncate_context r)" by auto
    with assms(2) bound show "length c \<le> 6500" by auto
  }
  show "user_contents (snd (process_dataframe server json_loads clock df cat prompt tr))
           = user_contents tr
             @ map truncate_context (filter (\<lambda>r. category r = cat) (rows_of df))"
    by (rule process_dataframe_user_contents)
  fix r :: row assume "6500 < len_context r"
  then show "truncate_context r = take 6500 (content r)" by (simp add: truncate_context_def)
qed

text \<open>Two rows, the second with 6501 characters and the column saying so: it is sent as
  6500 characters.\<close>

theorem truncation_by_column_witness:
  "list_all (\<lambda>c. length c \<le> 6500)
     (user_contents (snd (process_dataframe server_ok loads_table clock_noon
                            (Table [row_of 1, row_big]) (ascii ''tone'') (ascii ''classify'') [])))
   \<and> user_contents (snd (process_dataframe server_ok loads_table clock_noon
                            (Table [row_of 1, row_big]) (ascii ''tone'') (ascii ''classify'') []))
       = [ascii ''abc'', replicate 6500 97]
   \<and> truncate_context row_big = take 6500 (content row_big)"
proof -
  have a: "\<forall>r \<in> set (rows_of (Table [row_of 1, row_big])).
             6500 < int (length (content r)) \<longrightarrow> 6500 < len_context r"
    by (simp add: row_of_def row_big_def ascii_def)
  have b: "\<forall>c \<in> set (user_contents []). length c \<le> 6500"
    by (simp add: user_contents_Nil)
  have c: "6500 < len_context row_big" by (simp add: row_big_def)
  note t = truncation_by_column [OF a b, of server_ok loads_table clock_noon "ascii ''tone''"
      "ascii ''classify''"]
  from t have "list_all (\<lambda>c. length c \<le> 6500)
     (user_contents (snd (process_dataframe server_ok loads_table clock_noon
                            (Table [row_of 1, row_big]) (ascii ''tone'') (ascii ''classify'') [])))"
    by (simp add: list_all_iff)
  moreover from t have "user_contents (snd (process_dataframe server_ok loads_table clock_noon
                            (Table [row_of 1, row_big]) (ascii ''tone'') (ascii ''classify'') []))
       = [ascii ''abc'', replicate 6500 97]"
    by (simp add: user_contents_Nil row_of_def row_big_def truncate_context_def)
  moreover from t c have "truncate_context row_big = take 6500 (content row_big)" by blast
  ultimately show ?thesis by blast
qed

end
